theory Spec2Isabelle
  imports Main
begin

section \<open>Data model\<close>

text \<open>
  Strings are byte strings (UTF-8). A UUID is kept in its textual form, so that
  \<open>str(x.id)\<close> is the identity. A \<open>datetime\<close> is a point on a discrete time line.
\<close>

type_synonym uuid = string
type_synonym datetime = nat

text \<open>\<open>app/models/tenant.py\<close>: class \<open>Tenant\<close>, table \<open>tenants\<close>.\<close>

record Tenant =
  id_t :: uuid
  name :: string
  identifier_t :: string
  keycloak_idp_alias :: string
  status_t :: string
  created_at_t :: datetime
  updated_at_t :: datetime

text \<open>\<open>app/models/user.py\<close>: class \<open>User\<close>, table \<open>users\<close>; the nullable columns are options.\<close>

record User =
  id_u :: uuid
  tenant_id :: uuid
  keycloak_user_id :: string
  email :: string
  first_name :: "string option"
  last_name :: "string option"
  department :: string
  status_u :: string
  last_login :: "datetime option"
  created_at_u :: datetime
  updated_at_u :: datetime

text \<open>\<open>app/config.py\<close>: the fields of \<open>Settings\<close> that the modelled code reads.\<close>

record Settings =
  KEYCLOAK_URL :: string
  KEYCLOAK_PUBLIC_URL :: string
  KEYCLOAK_REALM :: string
  KEYCLOAK_CLIENT_ID :: string
  KEYCLOAK_CLIENT_SECRET :: string
  OAUTH_REDIRECT_URI :: string

definition token_url :: "Settings \<Rightarrow> string" where
  "token_url s = KEYCLOAK_URL s @ ''/realms/'' @ KEYCLOAK_REALM s @ ''/protocol/openid-connect/token''"

definition auth_url :: "Settings \<Rightarrow> string" where
  "auth_url s = KEYCLOAK_PUBLIC_URL s @ ''/realms/'' @ KEYCLOAK_REALM s @ ''/protocol/openid-connect/auth''"

definition logout_url :: "Settings \<Rightarrow> string" where
  "logout_url s = KEYCLOAK_URL s @ ''/realms/'' @ KEYCLOAK_REALM s @ ''/protocol/openid-connect/logout''"

definition certs_url :: "Settings \<Rightarrow> string" where
  "certs_url s = KEYCLOAK_URL s @ ''/realms/'' @ KEYCLOAK_REALM s @ ''/protocol/openid-connect/certs''"


section \<open>Python values and exceptions\<close>

text \<open>Python's \<open>not v\<close> for an optional string: \<open>None\<close> and the empty string are falsy.\<close>

definition falsy :: "string option \<Rightarrow> bool" where
  "falsy v = (v = None \<or> v = Some [])"

text \<open>
  \<open>fastapi.HTTPException(status_code, detail)\<close>. Every other exception is kept as its
  message \<open>str(e)\<close>: the handlers of the source only read that.
\<close>

datatype HTTPException = HTTPException (status_code: nat) (detail: string)

type_synonym message = string

section \<open>The identity provider and the libraries, as the environment of one request\<close>

text \<open>
  The result of one \<open>httpx\<close> request followed by \<open>raise_for_status()\<close> and \<open>.json()\<close>:
  a parsed body, an \<open>httpx.HTTPStatusError\<close> with the response text, or any other
  exception (transport failure, timeout, undecodable body) with its message.
\<close>

datatype 'a http_result = Response 'a | HTTPStatusError string | RequestError message

type_synonym form = "(string \<times> string) list"

text \<open>The requests sent to the identity provider, in the order they were sent.\<close>

datatype upstream_call = Post string form | Get string

text \<open>
  The JSON object of the token endpoint. \<open>token_data.get("access_token")\<close> and
  \<open>token_data.get("refresh_token")\<close> are \<open>None\<close> when the key is absent or its value
  is \<open>null\<close>. \<open>token_data.get("expires_in", 300)\<close> tells the two apart: the default
  stands in for an absent key only.
\<close>

datatype 'a json_member = Absent | Null | Val 'a

record token_data =
  access_token :: "string option"
  refresh_token :: "string option"
  expires_in :: "int json_member"

type_synonym jwks = string
type_synonym claims = "string \<rightharpoonup> string"

text \<open>The keyword arguments of \<open>jose.jwt.decode\<close>.\<close>

record jose_args =
  algorithms :: "string list"
  audience :: "string option"
  options :: "(string \<times> bool) list"

text \<open>
  What \<open>jose.jwt.decode\<close> does with a token: it returns the claims, raises a
  \<open>JWTError\<close> (for one of the listed causes, with its message), or raises an exception
  that is not a \<open>JWTError\<close>.
\<close>

datatype jwt_cause = Expired | Malformed | UnknownKeyId | SignatureMismatch | ClaimInvalid

datatype jose_outcome = Decoded claims | JWTError jwt_cause message | OtherRaise message

text \<open>
  Everything outside the program during one request: the provider's endpoints, the
  \<open>python-jose\<close> library, the clock (\<open>utcnow env k\<close> is the k-th reading of
  \<open>datetime.utcnow()\<close> in the request), the identifier \<open>uuid.uuid4()\<close> draws, the
  text of a \<open>pydantic\<close> validation error and of a store error, a fault of the
  store at commit (lost connection, value too long for its column), a fault of the
  store at one of the reads of a request, and the text of the exception the driver
  raises for a string parameter that holds a NUL character.
\<close>

datatype store_read = TenantByIdentifier | UserBySub | RefreshUser | ReloadTenant | TenantById

record Env =
  token_endpoint :: "form \<Rightarrow> token_data http_result"
  certs_endpoint :: "message + jwks"
  logout_endpoint :: "form \<Rightarrow> unit http_result"
  jwt_decode :: "string option \<Rightarrow> jwks \<Rightarrow> jose_args \<Rightarrow> jose_outcome"
  utcnow :: "nat \<Rightarrow> datetime"
  uuid4 :: uuid
  validation_error :: message
  integrity_error :: "string \<Rightarrow> message"
  commit_fault :: "message option"
  read_fault :: "store_read \<Rightarrow> message option"
  nul_error :: message

section \<open>Program state\<close>

text \<open>
  The change a session holds and has not committed: a new row (\<open>db.add(user)\<close>) or an
  existing row with attributes set. The handlers of the source hold at most one.
\<close>

datatype pending = Insert User | Update User

definition pending_row :: "pending \<Rightarrow> User" where
  "pending_row p = (case p of Insert u \<Rightarrow> u | Update u \<Rightarrow> u)"

text \<open>
  The two tables as committed, the session of the request being served, the fields of
  the \<open>KeycloakService\<close> singleton (\<open>_public_key\<close>, \<open>_public_key_expiry\<close>) and the
  trace of requests sent upstream.
\<close>

record World =
  tenants :: "Tenant list"
  users :: "User list"
  session :: "pending option"
  public_key :: "string option"
  public_key_expiry :: "datetime option"
  sent :: "upstream_call list"

text \<open>
  \<open>get_db\<close> hands the handler a new session, with nothing pending; \<open>db.rollback()\<close>
  drops what the session holds and leaves the tables as committed.
\<close>

definition get_db :: "World \<Rightarrow> World" where
  "get_db w = w\<lparr>session := None\<rparr>"

definition db_rollback :: "World \<Rightarrow> World" where
  "db_rollback w = w\<lparr>session := None\<rparr>"

text \<open>
  A read of the store raises when the store fails on it, or when the driver refuses
  its string parameter because it holds a NUL character; \<open>None\<close>: the read returns.
\<close>

definition read_raises :: "Env \<Rightarrow> store_read \<Rightarrow> string option \<Rightarrow> message option" where
  "read_raises env rd param =
     (case read_fault env rd of
        Some m \<Rightarrow> Some m
      | None \<Rightarrow>
          (case param of
             None \<Rightarrow> None
           | Some v \<Rightarrow> if CHR 0x00 \<in> set v then Some (nul_error env) else None))"

section \<open>\<open>urllib.parse.urlencode\<close>\<close>

definition always_safe :: string where
  "always_safe = ''ABCDEFGHIJKLMNOPQRSTUVWXYZabcdefghijklmnopqrstuvwxyz0123456789_.-~''"

definition hexdigits :: string where
  "hexdigits = ''0123456789ABCDEF''"

definition quote_char :: "char \<Rightarrow> string" where
  "quote_char c =
     (if c \<in> set always_safe then [c]
      else if c = CHR '' '' then ''+''
      else [CHR ''%'', hexdigits ! (of_char c div 16), hexdigits ! (of_char c mod 16)])"

definition quote_plus :: "string \<Rightarrow> string" where
  "quote_plus s = concat (map quote_char s)"

fun join_amp :: "string list \<Rightarrow> string" where
  "join_amp [] = []"
| "join_amp [x] = x"
| "join_amp (x # y # ys) = x @ ''&'' @ join_amp (y # ys)"

definition urlencode :: "form \<Rightarrow> string" where
  "urlencode query = join_amp (map (\<lambda>(k, v). quote_plus k @ ''='' @ quote_plus v) query)"

section \<open>\<open>app/routers/auth.py\<close>: \<open>identify_tenant\<close>\<close>

record IdentifyTenantResponse =
  tenant_found :: bool
  tenant_name :: "string option"
  tenant_id_r :: "string option"
  keycloak_auth_url :: "string option"

text \<open>\<open>db.query(Tenant).filter(identifier == d, status == "active").first()\<close>\<close>

definition active_tenant :: "string \<Rightarrow> Tenant list \<Rightarrow> Tenant option" where
  "active_tenant d ts = find (\<lambda>t. identifier_t t = d \<and> status_t t = ''active'') ts"

text \<open>
  The whole body is in a \<open>try\<close>: an exception of the query is answered with status 500.
\<close>

definition identify_tenant ::
  "Settings \<Rightarrow> Env \<Rightarrow> World \<Rightarrow> string \<Rightarrow> HTTPException + IdentifyTenantResponse" where
  "identify_tenant s env w department_req =
     (case read_raises env TenantByIdentifier (Some department_req) of
        Some m \<Rightarrow> Inl (HTTPException 500 (''Failed to identify tenant: '' @ m))
      | None \<Rightarrow>
          (case active_tenant department_req (tenants w) of
             None \<Rightarrow>
               Inr \<lparr>tenant_found = False, tenant_name = None, tenant_id_r = None,
                    keycloak_auth_url = None\<rparr>
           | Some tenant \<Rightarrow>
               let auth_params =
                     [(''client_id'', KEYCLOAK_CLIENT_ID s),
                      (''response_type'', ''code''),
                      (''redirect_uri'', OAUTH_REDIRECT_URI s),
                      (''kc_idp_hint'', keycloak_idp_alias tenant)];
                   url = auth_url s @ ''?'' @ urlencode auth_params
               in Inr \<lparr>tenant_found = True, tenant_name = Some (name tenant),
                       tenant_id_r = Some (id_t tenant), keycloak_auth_url = Some url\<rparr>))"

section \<open>\<open>app/services/keycloak_service.py\<close>: class \<open>KeycloakService\<close>\<close>

text \<open>
  Each method returns \<open>Inl m\<close> when it raises an exception with message \<open>m\<close>, and the
  state with the request it sent appended to the trace.
\<close>

definition exchange_code_for_token ::
  "Settings \<Rightarrow> Env \<Rightarrow> string \<Rightarrow> string \<Rightarrow> World \<Rightarrow> (message + token_data) \<times> World" where
  "exchange_code_for_token s env code redirect_uri w =
     (let data = [(''grant_type'', ''authorization_code''),
                  (''code'', code),
                  (''redirect_uri'', redirect_uri),
                  (''client_id'', KEYCLOAK_CLIENT_ID s),
                  (''client_secret'', KEYCLOAK_CLIENT_SECRET s)];
          w' = w\<lparr>sent := sent w @ [Post (token_url s) data]\<rparr>
      in (case token_endpoint env data of
            Response td \<Rightarrow> Inr td
          | HTTPStatusError txt \<Rightarrow> Inl (''Token exchange failed: '' @ txt)
          | RequestError m \<Rightarrow> Inl (''Token exchange failed: '' @ m),
          w'))"

definition refresh_access_token ::
  "Settings \<Rightarrow> Env \<Rightarrow> string \<Rightarrow> World \<Rightarrow> (message + token_data) \<times> World" where
  "refresh_access_token s env refresh_tok w =
     (let data = [(''grant_type'', ''refresh_token''),
                  (''refresh_token'', refresh_tok),
                  (''client_id'', KEYCLOAK_CLIENT_ID s),
                  (''client_secret'', KEYCLOAK_CLIENT_SECRET s)];
          w' = w\<lparr>sent := sent w @ [Post (token_url s) data]\<rparr>
      in (case token_endpoint env data of
            Response td \<Rightarrow> Inr td
          | HTTPStatusError txt \<Rightarrow> Inl (''Token refresh failed: '' @ txt)
          | RequestError m \<Rightarrow> Inl (''Token refresh failed: '' @ m),
          w'))"

definition revoke_token ::
  "Settings \<Rightarrow> Env \<Rightarrow> string \<Rightarrow> World \<Rightarrow> (message + bool) \<times> World" where
  "revoke_token s env refresh_tok w =
     (let data = [(''token'', refresh_tok),
                  (''client_id'', KEYCLOAK_CLIENT_ID s),
                  (''client_secret'', KEYCLOAK_CLIENT_SECRET s)];
          w' = w\<lparr>sent := sent w @ [Post (logout_url s) data]\<rparr>
      in (case logout_endpoint env data of
            Response _ \<Rightarrow> Inr True
          | HTTPStatusError txt \<Rightarrow> Inl (''Token revocation failed: '' @ txt)
          | RequestError m \<Rightarrow> Inl (''Token revocation failed: '' @ m),
          w'))"

text \<open>
  The arguments \<open>decode_token\<close> gives \<open>jwt.decode\<close>:
  \<open>algorithms=["RS256"], audience=settings.KEYCLOAK_CLIENT_ID,
  options={"verify_aud": False, "verify_iss": False}\<close>.
\<close>

definition decode_args :: "Settings \<Rightarrow> jose_args" where
  "decode_args s =
     \<lparr>algorithms = [''RS256''],
      audience = Some (KEYCLOAK_CLIENT_ID s),
      options = [(''verify_aud'', False), (''verify_iss'', False)]\<rparr>"

text \<open>
  \<open>decode_token\<close> gets the key set from \<open>settings.certs_url\<close> on every call; it reads
  and writes neither \<open>_public_key\<close> nor \<open>_public_key_expiry\<close>. Only a \<open>JWTError\<close> is
  caught and raised again as \<open>Exception("Invalid token: ...")\<close>; an exception of the
  request or of another kind leaves the method as it is.
\<close>

definition decode_token ::
  "Settings \<Rightarrow> Env \<Rightarrow> string option \<Rightarrow> World \<Rightarrow> (message + claims) \<times> World" where
  "decode_token s env token w =
     (let w' = w\<lparr>sent := sent w @ [Get (certs_url s)]\<rparr>
      in (case certs_endpoint env of
            Inl m \<Rightarrow> Inl m
          | Inr jwks \<Rightarrow>
              (case jwt_decode env token jwks (decode_args s) of
                 Decoded decoded \<Rightarrow> Inr decoded
               | JWTError cause m \<Rightarrow> Inl (''Invalid token: '' @ m)
               | OtherRaise m \<Rightarrow> Inl m),
          w'))"

section \<open>\<open>service/dependencies.py\<close>\<close>

text \<open>
  The second component has no store and no service object: its state is the trace of
  requests alone. Its \<open>Settings\<close> has the fields \<open>KEYCLOAK_URL\<close>, \<open>KEYCLOAK_REALM\<close>
  and \<open>KEYCLOAK_CLIENT_ID\<close> of the record above.
\<close>

definition service_decode_token ::
  "Settings \<Rightarrow> Env \<Rightarrow> string option \<Rightarrow> upstream_call list \<Rightarrow> (message + claims) \<times> upstream_call list" where
  "service_decode_token s env token tr =
     (let tr' = tr @ [Get (certs_url s)]
      in (case certs_endpoint env of
            Inl m \<Rightarrow> Inl m
          | Inr jwks \<Rightarrow>
              (case jwt_decode env token jwks (decode_args s) of
                 Decoded decoded \<Rightarrow> Inr decoded
               | JWTError cause m \<Rightarrow> Inl (''Invalid token: '' @ m)
               | OtherRaise m \<Rightarrow> Inl m),
          tr'))"

definition service_get_current_user ::
  "Settings \<Rightarrow> Env \<Rightarrow> string \<Rightarrow> upstream_call list \<Rightarrow> (HTTPException + claims) \<times> upstream_call list" where
  "service_get_current_user s env token tr =
     (case service_decode_token s env (Some token) tr of
        (Inl m, tr') \<Rightarrow> (Inl (HTTPException 401 (''Authentication failed: '' @ m)), tr')
      | (Inr decoded_token, tr') \<Rightarrow>
          if falsy (decoded_token ''sub'')
          then (Inl (HTTPException 401 ''Invalid token: missing user ID''), tr')
          else (Inr decoded_token, tr'))"

section \<open>\<open>app/dependencies.py\<close>: \<open>get_current_user\<close>\<close>

text \<open>\<open>db.query(User).filter(User.keycloak_user_id == sub).first()\<close>\<close>

definition user_by_sub :: "string \<Rightarrow> User list \<Rightarrow> User option" where
  "user_by_sub sub us = find (\<lambda>u. keycloak_user_id u = sub) us"

text \<open>
  The lookup stands in the same \<open>try\<close> as the verification: when it raises, the
  handler for \<open>Exception\<close> answers 401.
\<close>

definition get_current_user ::
  "Settings \<Rightarrow> Env \<Rightarrow> string \<Rightarrow> World \<Rightarrow> (HTTPException + User) \<times> World" where
  "get_current_user s env token w =
     (case decode_token s env (Some token) w of
        (Inl m, w1) \<Rightarrow> (Inl (HTTPException 401 (''Authentication failed: '' @ m)), w1)
      | (Inr decoded_token, w1) \<Rightarrow>
          if falsy (decoded_token ''sub'')
          then (Inl (HTTPException 401 ''Invalid token: missing user ID''), w1)
          else
            (case read_raises env UserBySub (decoded_token ''sub'') of
               Some m \<Rightarrow> (Inl (HTTPException 401 (''Authentication failed: '' @ m)), w1)
             | None \<Rightarrow>
                 (case user_by_sub (the (decoded_token ''sub'')) (users w1) of
                    None \<Rightarrow> (Inl (HTTPException 404 ''User not found in database''), w1)
                  | Some user \<Rightarrow>
                      if status_u user \<noteq> ''active''
                      then (Inl (HTTPException 403 ''User account is not active''), w1)
                      else (Inr user, w1))))"

section \<open>The store: committing one change to table \<open>users\<close>\<close>

text \<open>
  The constraints \<open>app/models/user.py\<close> declares: the primary key \<open>id\<close>, the unique
  index on \<open>keycloak_user_id\<close>, and \<open>uq_tenant_email\<close> on \<open>(tenant_id, email)\<close>.
\<close>

definition insert_violation :: "User list \<Rightarrow> User \<Rightarrow> string option" where
  "insert_violation us u =
     (if list_ex (\<lambda>x. id_u x = id_u u) us then Some ''users_pkey''
      else if list_ex (\<lambda>x. keycloak_user_id x = keycloak_user_id u) us
        then Some ''ix_users_keycloak_user_id''
      else if list_ex (\<lambda>x. tenant_id x = tenant_id u \<and> email x = email u) us
        then Some ''uq_tenant_email''
      else None)"

definition update_violation :: "User list \<Rightarrow> User \<Rightarrow> string option" where
  "update_violation us u =
     (if list_ex (\<lambda>x. id_u x \<noteq> id_u u \<and> tenant_id x = tenant_id u \<and> email x = email u) us
        then Some ''uq_tenant_email''
      else None)"

text \<open>
  \<open>db.commit()\<close>: the flush sends the change, the store checks its constraints, then
  the transaction is committed. \<open>Inl m\<close>: the commit raised an exception with message
  \<open>m\<close> and nothing was written.
\<close>

definition commit :: "Env \<Rightarrow> pending \<Rightarrow> User list \<Rightarrow> message + User list" where
  "commit env p us =
     (case p of
        Insert u \<Rightarrow>
          (case insert_violation us u of
             Some c \<Rightarrow> Inl (integrity_error env c)
           | None \<Rightarrow>
               (case commit_fault env of
                  Some m \<Rightarrow> Inl m
                | None \<Rightarrow> Inr (us @ [u])))
      | Update u \<Rightarrow>
          (case update_violation us u of
             Some c \<Rightarrow> Inl (integrity_error env c)
           | None \<Rightarrow>
               (case commit_fault env of
                  Some m \<Rightarrow> Inl m
                | None \<Rightarrow> Inr (map (\<lambda>x. if id_u x = id_u u then u else x) us))))"

section \<open>\<open>app/schemas\<close>: the response models\<close>

record TenantResponse =
  id_tr :: string
  name_tr :: string
  identifier_tr :: string
  keycloak_idp_alias_tr :: "string option"
  status_tr :: "string option"

record UserResponse =
  id_ur :: string
  email_ur :: string
  first_name_ur :: "string option"
  last_name_ur :: "string option"
  department_ur :: string
  status_ur :: "string option"
  last_login_ur :: "datetime option"
  tenant_ur :: "TenantResponse option"

record TokenResponse =
  access_token_r :: string
  refresh_token_r :: string
  token_type :: string
  expires_in_r :: int
  user :: UserResponse

definition tenant_response :: "Tenant \<Rightarrow> TenantResponse" where
  "tenant_response tenant =
     \<lparr>id_tr = id_t tenant, name_tr = name tenant, identifier_tr = identifier_t tenant,
      keycloak_idp_alias_tr = Some (keycloak_idp_alias tenant),
      status_tr = Some (status_t tenant)\<rparr>"

definition user_response :: "User \<Rightarrow> Tenant \<Rightarrow> UserResponse" where
  "user_response u tenant =
     \<lparr>id_ur = id_u u, email_ur = email u, first_name_ur = first_name u,
      last_name_ur = last_name u, department_ur = department u,
      status_ur = Some (status_u u), last_login_ur = last_login u,
      tenant_ur = Some (tenant_response tenant)\<rparr>"

text \<open>
  \<open>TokenResponse(access_token=..., refresh_token=..., expires_in=..., user=...)\<close>:
  \<open>access_token\<close> and \<open>refresh_token\<close> are required strings and \<open>expires_in\<close> a
  required integer, so the constructor raises a validation error when one of them is
  \<open>None\<close>.
\<close>

definition token_response ::
  "Env \<Rightarrow> token_data \<Rightarrow> UserResponse \<Rightarrow> message + TokenResponse" where
  "token_response env td ur =
     (case (access_token td, refresh_token td,
            (case expires_in td of Absent \<Rightarrow> Some 300 | Null \<Rightarrow> None | Val n \<Rightarrow> Some n)) of
        (Some at, Some rt, Some n) \<Rightarrow>
          Inr \<lparr>access_token_r = at, refresh_token_r = rt, token_type = ''bearer'',
               expires_in_r = n, user = ur\<rparr>
      | _ \<Rightarrow> Inl (validation_error env))"

section \<open>\<open>app/routers/auth.py\<close>: \<open>callback\<close>, \<open>refresh\<close>, \<open>logout\<close>\<close>

text \<open>
  Lines 154 to 182 of \<open>callback\<close>: the row with the subject is looked up; when it is
  there its claim fields, tenant, \<open>last_login\<close> and \<open>updated_at\<close> are set; otherwise
  a new row is built, with the column defaults (\<open>id\<close>, \<open>created_at\<close>, \<open>updated_at\<close>).
\<close>

definition find_or_create_user ::
  "Env \<Rightarrow> Tenant \<Rightarrow> string \<Rightarrow> string \<Rightarrow> string option \<Rightarrow> string option \<Rightarrow> string \<Rightarrow> User list \<Rightarrow> pending" where
  "find_or_create_user env tenant kc_user_id email_c first_name_c last_name_c department_c us =
     (case user_by_sub kc_user_id us of
        Some u \<Rightarrow>
          Update (u\<lparr>email := email_c,
                    first_name := first_name_c,
                    last_name := last_name_c,
                    department := department_c,
                    tenant_id := id_t tenant,
                    last_login := Some (utcnow env 0),
                    updated_at_u := utcnow env 1\<rparr>)
      | None \<Rightarrow>
          Insert \<lparr>id_u = uuid4 env,
                  tenant_id = id_t tenant,
                  keycloak_user_id = kc_user_id,
                  email = email_c,
                  first_name = first_name_c,
                  last_name = last_name_c,
                  department = department_c,
                  status_u = ''active'',
                  last_login = Some (utcnow env 0),
                  created_at_u = utcnow env 1,
                  updated_at_u = utcnow env 2\<rparr>)"

definition callback_failed :: "message \<Rightarrow> HTTPException" where
  "callback_failed m = HTTPException 500 (''Callback processing failed: '' @ m)"

text \<open>
  \<open>callback\<close> up to line 182, all it does before \<open>db.commit()\<close>: \<open>get_db\<close> gives the
  session, the code is exchanged, the access token verified, the claims read, the
  department set, the tenant looked up, the user looked up and the change to the user
  row put in the session. The department is the literal \<open>"tenant-a"\<close>. An exception
  (of the exchange, the verification or a query) reaches the handler for \<open>Exception\<close>:
  \<open>db.rollback()\<close>, then status 500. The 400 and the 404 are raised as they are.
\<close>

definition callback_prepare ::
  "Settings \<Rightarrow> Env \<Rightarrow> string \<Rightarrow> World
     \<Rightarrow> (HTTPException + token_data \<times> claims \<times> Tenant \<times> pending) \<times> World" where
  "callback_prepare s env code w =
     (case exchange_code_for_token s env code (OAUTH_REDIRECT_URI s) (get_db w) of
        (Inl m, w1) \<Rightarrow> (Inl (callback_failed m), db_rollback w1)
      | (Inr td, w1) \<Rightarrow>
          (case decode_token s env (access_token td) w1 of
             (Inl m, w2) \<Rightarrow> (Inl (callback_failed m), db_rollback w2)
           | (Inr decoded_token, w2) \<Rightarrow>
               let kc_user_id = decoded_token ''sub'';
                   email_c = decoded_token ''email'';
                   first_name_c = decoded_token ''given_name'';
                   last_name_c = decoded_token ''family_name'';
                   department_c = ''tenant-a''
               in if falsy kc_user_id \<or> falsy email_c \<or> falsy (Some department_c)
                  then (Inl (HTTPException 400 ''Missing required user information in token''), w2)
                  else
                    (case read_raises env TenantByIdentifier (Some department_c) of
                       Some m \<Rightarrow> (Inl (callback_failed m), db_rollback w2)
                     | None \<Rightarrow>
                    (case active_tenant department_c (tenants w2) of
                       None \<Rightarrow>
                         (Inl (HTTPException 404
                                (''No active tenant found for department: '' @ department_c)), w2)
                     | Some tenant \<Rightarrow>
                         (case read_raises env UserBySub kc_user_id of
                            Some m \<Rightarrow> (Inl (callback_failed m), db_rollback w2)
                          | None \<Rightarrow>
                              let p = find_or_create_user env tenant (the kc_user_id)
                                        (the email_c) first_name_c last_name_c department_c
                                        (users w2)
                              in (Inr (td, decoded_token, tenant, p),
                                  w2\<lparr>session := Some p\<rparr>))))))"

text \<open>
  Lines 184 to 223. \<open>db.commit()\<close> writes the pending row or raises and writes
  nothing. After it, \<open>db.refresh(user)\<close> reads the row again, \<open>tenant.id\<close> loads the
  tenant again (the commit expired it), and the response is built. An exception of any
  of these steps reaches the handler for \<open>Exception\<close>: \<open>db.rollback()\<close>, then status
  500; after the commit the rollback finds nothing to drop.
\<close>

definition callback ::
  "Settings \<Rightarrow> Env \<Rightarrow> string \<Rightarrow> World \<Rightarrow> (HTTPException + TokenResponse) \<times> World" where
  "callback s env code w =
     (case callback_prepare s env code w of
        (Inl e, w2) \<Rightarrow> (Inl e, w2)
      | (Inr (td, decoded_token, tenant, p), w2) \<Rightarrow>
          (case commit env p (users w2) of
             Inl m \<Rightarrow> (Inl (callback_failed m), db_rollback w2)
           | Inr us' \<Rightarrow>
               let w3 = w2\<lparr>users := us', session := None\<rparr>
               in (case read_raises env RefreshUser None of
                     Some m \<Rightarrow> (Inl (callback_failed m), db_rollback w3)
                   | None \<Rightarrow>
                       (case read_raises env ReloadTenant None of
                          Some m \<Rightarrow> (Inl (callback_failed m), db_rollback w3)
                        | None \<Rightarrow>
                            (case token_response env td
                                    (user_response (pending_row p) tenant) of
                               Inl m \<Rightarrow> (Inl (callback_failed m), db_rollback w3)
                             | Inr r \<Rightarrow> (Inr r, w3))))))"

definition refresh_failed :: "message \<Rightarrow> HTTPException" where
  "refresh_failed m = HTTPException 500 (''Token refresh failed: '' @ m)"

text \<open>
  \<open>refresh\<close> sets \<open>last_login\<close> alone. \<open>updated_at\<close> has \<open>onupdate=datetime.utcnow\<close>:
  it is set when the flush sends an UPDATE, which it does when \<open>last_login\<close> changed.
  A \<open>sub\<close> of \<open>None\<close> compares with no row. A missing tenant makes \<open>tenant.id\<close> raise.
  The handler for \<open>Exception\<close> answers 500 and does not roll back.
\<close>

definition none_has_no_id :: message where
  "none_has_no_id =
     CHR 0x27 # ''NoneType'' @ CHR 0x27 # '' object has no attribute '' @ CHR 0x27 # ''id'' @ [CHR 0x27]"

definition touch_last_login :: "Env \<Rightarrow> User \<Rightarrow> User" where
  "touch_last_login env u =
     (if last_login u = Some (utcnow env 0) then u
      else u\<lparr>last_login := Some (utcnow env 0), updated_at_u := utcnow env 1\<rparr>)"

definition refresh ::
  "Settings \<Rightarrow> Env \<Rightarrow> string \<Rightarrow> World \<Rightarrow> (HTTPException + TokenResponse) \<times> World" where
  "refresh s env refresh_tok w =
     (case refresh_access_token s env refresh_tok (get_db w) of
        (Inl m, w1) \<Rightarrow> (Inl (refresh_failed m), w1)
      | (Inr td, w1) \<Rightarrow>
          (case decode_token s env (access_token td) w1 of
             (Inl m, w2) \<Rightarrow> (Inl (refresh_failed m), w2)
           | (Inr decoded_token, w2) \<Rightarrow>
               (case read_raises env UserBySub (decoded_token ''sub'') of
                  Some m \<Rightarrow> (Inl (refresh_failed m), w2)
                | None \<Rightarrow>
                    (case (case decoded_token ''sub'' of
                             None \<Rightarrow> None
                           | Some kc_user_id \<Rightarrow> user_by_sub kc_user_id (users w2)) of
                       None \<Rightarrow> (Inl (HTTPException 404 ''User not found''), w2)
                     | Some u \<Rightarrow>
                         let p = Update (touch_last_login env u)
                         in (case commit env p (users w2) of
                               Inl m \<Rightarrow> (Inl (refresh_failed m), w2\<lparr>session := Some p\<rparr>)
                             | Inr us' \<Rightarrow>
                                 let w3 = w2\<lparr>users := us', session := None\<rparr>
                                 in (case read_raises env RefreshUser None of
                                       Some m \<Rightarrow> (Inl (refresh_failed m), w3)
                                     | None \<Rightarrow>
                                         (case read_raises env TenantById None of
                                            Some m \<Rightarrow> (Inl (refresh_failed m), w3)
                                          | None \<Rightarrow>
                                              (case find (\<lambda>t. id_t t = tenant_id (pending_row p))
                                                      (tenants w3) of
                                                 None \<Rightarrow>
                                                   (Inl (refresh_failed none_has_no_id), w3)
                                               | Some tenant \<Rightarrow>
                                                   (case token_response env td
                                                           (user_response (pending_row p) tenant) of
                                                      Inl m \<Rightarrow> (Inl (refresh_failed m), w3)
                                                    | Inr r \<Rightarrow> (Inr r, w3))))))))))"

text \<open>
  \<open>logout\<close> depends on \<open>get_current_user\<close>: the framework resolves the dependency
  first and does not run the body when the dependency raises.
\<close>

definition logout ::
  "Settings \<Rightarrow> Env \<Rightarrow> string \<Rightarrow> string \<Rightarrow> World \<Rightarrow> (HTTPException + string) \<times> World" where
  "logout s env bearer refresh_tok w =
     (case get_current_user s env bearer w of
        (Inl e, w1) \<Rightarrow> (Inl e, w1)
      | (Inr current_user, w1) \<Rightarrow>
          (case revoke_token s env refresh_tok w1 of
             (Inl m, w2) \<Rightarrow> (Inl (HTTPException 500 (''Logout failed: '' @ m)), w2)
           | (Inr _, w2) \<Rightarrow> (Inr ''Logged out successfully'', w2)))"


section \<open>A concrete deployment, for evaluating the operations\<close>

text \<open>The defaults of \<open>app/config.py\<close> and the tenants \<open>init_db.py\<close> seeds, with one closed tenant.\<close>

definition settings0 :: Settings where
  "settings0 =
     \<lparr>KEYCLOAK_URL = ''http://localhost:8080'',
      KEYCLOAK_PUBLIC_URL = ''http://localhost/auth/keycloak'',
      KEYCLOAK_REALM = ''multi-tenant-app'',
      KEYCLOAK_CLIENT_ID = ''fastapi-backend'',
      KEYCLOAK_CLIENT_SECRET = ''s3cret'',
      OAUTH_REDIRECT_URI = ''http://localhost:3000/auth/callback''\<rparr>"

definition tenant_a :: Tenant where
  "tenant_a = \<lparr>id_t = ''t-a'', name = ''Tenant A Corp'', identifier_t = ''tenant-a'',
      keycloak_idp_alias = ''microsoft'', status_t = ''active'',
      created_at_t = 1, updated_at_t = 1\<rparr>"

definition tenant_b :: Tenant where
  "tenant_b = \<lparr>id_t = ''t-b'', name = ''Tenant B Industries'', identifier_t = ''tenant-b'',
      keycloak_idp_alias = ''microsoft'', status_t = ''active'',
      created_at_t = 1, updated_at_t = 1\<rparr>"

definition tenant_c :: Tenant where
  "tenant_c = \<lparr>id_t = ''t-c'', name = ''Tenant C Closed'', identifier_t = ''tenant-c'',
      keycloak_idp_alias = ''microsoft'', status_t = ''inactive'',
      created_at_t = 1, updated_at_t = 1\<rparr>"

definition world0 :: World where
  "world0 = \<lparr>tenants = [tenant_a, tenant_b, tenant_c], users = [], session = None,
      public_key = None, public_key_expiry = None, sent = []\<rparr>"

text \<open>The claims of Scenario C, and the same principal with a department claim of tenant B.\<close>

definition claims_abc :: claims where
  "claims_abc = [''sub'' \<mapsto> ''abc'', ''email'' \<mapsto> ''a@x.com'',
                 ''given_name'' \<mapsto> ''A'', ''family_name'' \<mapsto> ''B'']"

definition claims_abc_b :: claims where
  "claims_abc_b = claims_abc(''department'' \<mapsto> ''tenant-b'')"

definition claims_abc_new :: claims where
  "claims_abc_new = [''sub'' \<mapsto> ''abc'', ''email'' \<mapsto> ''new@x.com'',
                     ''given_name'' \<mapsto> ''Ann'', ''family_name'' \<mapsto> ''Bee'']"

text \<open>
  Claims whose audience and issuer are not this deployment's, and claims whose subject
  holds a NUL character.
\<close>

definition claims_foreign :: claims where
  "claims_foreign = [''sub'' \<mapsto> ''abc'', ''aud'' \<mapsto> ''another-client'',
                     ''iss'' \<mapsto> ''http://elsewhere/realms/other'']"

definition claims_nul :: claims where
  "claims_nul = [''sub'' \<mapsto> ''ab'' @ [CHR 0x00], ''email'' \<mapsto> ''a@x.com'']"

text \<open>What the library answers for the tokens of the examples.\<close>

definition demo_tokens :: "string \<Rightarrow> jose_outcome" where
  "demo_tokens t =
     (if t = ''code-1'' \<or> t = ''code-2'' then Decoded claims_abc
      else if t = ''code-b'' then Decoded claims_abc_b
      else if t = ''code-new'' then Decoded claims_abc_new
      else if t = ''no-sub'' then Decoded Map.empty
      else if t = ''foreign'' then Decoded claims_foreign
      else if t = ''nul-sub'' then Decoded claims_nul
      else if t = ''old'' then JWTError Expired ''Signature has expired.''
      else if t = ''other-key'' then JWTError UnknownKeyId ''Signature verification failed.''
      else JWTError Malformed ''Not enough segments'')"

text \<open>
  A provider whose access token for an authorization code (or a refresh token) is the
  code itself; \<open>rt\<close> is the refresh token it issues, the clock starts at \<open>now\<close>.
\<close>

definition demo_env :: "string option \<Rightarrow> datetime \<Rightarrow> uuid \<Rightarrow> Env" where
  "demo_env rt now uid =
     \<lparr>token_endpoint =
        (\<lambda>data. case map_of data ''code'' of
                   Some c \<Rightarrow> Response \<lparr>access_token = Some c, refresh_token = rt, expires_in = Absent\<rparr>
                 | None \<Rightarrow>
                     (case map_of data ''refresh_token'' of
                        Some r \<Rightarrow> Response \<lparr>access_token = Some r, refresh_token = rt,
                                            expires_in = Val 60\<rparr>
                      | None \<Rightarrow> HTTPStatusError ''invalid_request'')),
      certs_endpoint = Inr ''{keys}'',
      logout_endpoint = (\<lambda>data. Response ()),
      jwt_decode = (\<lambda>tok jwks args. case tok of
                                        None \<Rightarrow> OtherRaise ''token is None''
                                      | Some t \<Rightarrow> demo_tokens t),
      utcnow = (\<lambda>k. now + k),
      uuid4 = uid,
      validation_error = ''1 validation error for TokenResponse'',
      integrity_error = (\<lambda>c. ''duplicate key value violates unique constraint '' @ c),
      commit_fault = None,
      read_fault = (\<lambda>rd. None),
      nul_error = ''A string literal cannot contain NUL (0x00) characters.''\<rparr>"

text \<open>The same provider with a store that fails on \<open>db.refresh(user)\<close>.\<close>

definition demo_env_refresh_fault :: Env where
  "demo_env_refresh_fault =
     (demo_env (Some ''r1'') 100 ''u-1'')
       \<lparr>read_fault := (\<lambda>rd. if rd = RefreshUser
                              then Some ''server closed the connection unexpectedly''
                              else None)\<rparr>"

definition user_abc :: User where
  "user_abc =
     \<lparr>id_u = ''u-1'', tenant_id = ''t-a'', keycloak_user_id = ''abc'', email = ''old@x.com'',
      first_name = Some ''Old'', last_name = None, department = ''tenant-a'',
      status_u = ''active'', last_login = Some 10, created_at_u = 5, updated_at_u = 10\<rparr>"


text \<open>The row and the state the first callback of Scenario C leaves.\<close>

definition user_abc_created :: User where
  "user_abc_created =
     \<lparr>id_u = ''u-1'', tenant_id = ''t-a'', keycloak_user_id = ''abc'', email = ''a@x.com'',
      first_name = Some ''A'', last_name = Some ''B'', department = ''tenant-a'',
      status_u = ''active'', last_login = Some 100, created_at_u = 101, updated_at_u = 102\<rparr>"

definition world1 :: World where
  "world1 =
     world0\<lparr>users := [user_abc_created],
            sent := [Post (token_url settings0)
                       [(''grant_type'', ''authorization_code''), (''code'', ''code-1''),
                        (''redirect_uri'', ''http://localhost:3000/auth/callback''),
                        (''client_id'', ''fastapi-backend''),
                        (''client_secret'', ''s3cret'')],
                     Get (certs_url settings0)]\<rparr>"

section \<open>Reading a query parameter back\<close>

text \<open>
  \<open>urllib.parse.unquote_plus\<close>, what the receiver of a URL applies to a parameter;
  it is used only to state which value an encoded parameter carries.
\<close>

definition hexval :: "char \<Rightarrow> nat" where
  "hexval c = (if c \<in> set ''0123456789'' then of_char c - 48 else of_char c - 55)"

fun unquote_plus :: "string \<Rightarrow> string" where
  "unquote_plus (c # a # b # cs) =
     (if c = CHR ''%'' then char_of (hexval a * 16 + hexval b) # unquote_plus cs
      else (if c = CHR ''+'' then CHR '' '' else c) # unquote_plus (a # b # cs))"
| "unquote_plus (c # cs) = (if c = CHR ''+'' then CHR '' '' else c) # unquote_plus cs"
| "unquote_plus [] = []"

section \<open>Helper facts\<close>

lemma distinct_map_eq:
  "distinct (map f xs) \<Longrightarrow> x \<in> set xs \<Longrightarrow> y \<in> set xs \<Longrightarrow> f x = f y \<Longrightarrow> x = y"
  by (meson distinct_map inj_on_def)

lemma active_tenant_Some:
  "active_tenant d ts = Some t \<Longrightarrow> t \<in> set ts \<and> identifier_t t = d \<and> status_t t = ''active''"
  unfolding active_tenant_def by (auto simp: find_Some_iff)

lemma active_tenant_None:
  "active_tenant d ts = None \<longleftrightarrow> \<not> (\<exists>t\<in>set ts. identifier_t t = d \<and> status_t t = ''active'')"
  unfolding active_tenant_def by (auto simp: find_None_iff)

lemma quote_plus_safe: "set s \<subseteq> set always_safe \<Longrightarrow> quote_plus s = s"
  by (induction s) (auto simp: quote_plus_def quote_char_def)

lemma quote_plus_Nil: "quote_plus [] = []"
  by (simp add: quote_plus_def)

lemma quote_plus_Cons: "quote_plus (c # s) = quote_char c @ quote_plus s"
  by (simp add: quote_plus_def)

lemma urlencode_four:
  "urlencode [(k1, v1), (k2, v2), (k3, v3), (k4, v4)] =
     quote_plus k1 @ ''='' @ quote_plus v1 @ ''&'' @ quote_plus k2 @ ''='' @ quote_plus v2 @ ''&'' @
     quote_plus k3 @ ''='' @ quote_plus v3 @ ''&'' @ quote_plus k4 @ ''='' @ quote_plus v4"
  by (simp add: urlencode_def)

lemma key_client_id: "quote_plus ''client_id'' = ''client_id''"
  by (rule quote_plus_safe) (simp add: always_safe_def)

lemma key_response_type: "quote_plus ''response_type'' = ''response_type''"
  by (rule quote_plus_safe) (simp add: always_safe_def)

lemma key_code: "quote_plus ''code'' = ''code''"
  by (rule quote_plus_safe) (simp add: always_safe_def)

lemma key_redirect_uri: "quote_plus ''redirect_uri'' = ''redirect_uri''"
  by (rule quote_plus_safe) (simp add: always_safe_def)

lemma key_kc_idp_hint: "quote_plus ''kc_idp_hint'' = ''kc_idp_hint''"
  by (rule quote_plus_safe) (simp add: always_safe_def)

lemma decode_token_world:
  "decode_token s env tok w = (r, w') \<Longrightarrow> w' = w\<lparr>sent := sent w @ [Get (certs_url s)]\<rparr>"
  by (simp add: decode_token_def Let_def)

lemma get_current_user_world:
  "snd (get_current_user s env bearer w) = w\<lparr>sent := sent w @ [Get (certs_url s)]\<rparr>"
proof -
  obtain r w' where d: "decode_token s env (Some bearer) w = (r, w')"
    by (cases "decode_token s env (Some bearer) w")
  then have w': "w' = w\<lparr>sent := sent w @ [Get (certs_url s)]\<rparr>"
    by (rule decode_token_world)
  show ?thesis
    using d unfolding get_current_user_def w'
    by (simp split: sum.splits option.splits)
qed

lemma revoke_token_world:
  "snd (revoke_token s env rt w) =
     w\<lparr>sent := sent w @ [Post (logout_url s) [(''token'', rt),
                     (''client_id'', KEYCLOAK_CLIENT_ID s),
                     (''client_secret'', KEYCLOAK_CLIENT_SECRET s)]]\<rparr>"
  by (simp add: revoke_token_def Let_def)

lemma demo_decode:
  "decode_token settings0 (demo_env rt now uid) (Some t) w =
     ((case demo_tokens t of
         Decoded c \<Rightarrow> Inr c
       | JWTError cause m \<Rightarrow> Inl (''Invalid token: '' @ m)
       | OtherRaise m \<Rightarrow> Inl m),
      w\<lparr>sent := sent w @ [Get (certs_url settings0)]\<rparr>)"
  by (simp add: decode_token_def demo_env_def Let_def)

lemma demo_reads: "read_raises (demo_env rt now uid) rd None = None"
  by (simp add: read_raises_def demo_env_def)

lemma demo_read_ok:
  "CHR 0x00 \<notin> set v \<Longrightarrow> read_raises (demo_env rt now uid) rd (Some v) = None"
  by (simp add: read_raises_def demo_env_def)

section \<open>Token verification\<close>

text \<open>
  C2. Whatever the service object holds as cached key, and for every token (so also for
  one whose key id is in no cached set), one verification sends exactly one request for
  the key set and leaves the cache fields as they were. When the request returns a key
  set, the verification succeeds if the library decodes the token against that fresh
  set, and fails with \<open>Invalid token\<close> if the library rejects it, an unknown key id
  included.
\<close>

theorem decode_token_fetches_once:
  "sent (snd (decode_token s env tok w)) = sent w @ [Get (certs_url s)]
   \<and> public_key (snd (decode_token s env tok w)) = public_key w
   \<and> public_key_expiry (snd (decode_token s env tok w)) = public_key_expiry w
   \<and> (\<forall>jwks. certs_endpoint env = Inr jwks \<longrightarrow>
        (\<forall>c. jwt_decode env tok jwks (decode_args s) = Decoded c \<longrightarrow>
               fst (decode_token s env tok w) = Inr c)
      \<and> (\<forall>cause m. jwt_decode env tok jwks (decode_args s) = JWTError cause m \<longrightarrow>
               fst (decode_token s env tok w) = Inl (''Invalid token: '' @ m)))"
  by (simp add: decode_token_def Let_def)

theorem decode_token_fetches_once_witness:
  "sent (snd (decode_token settings0 (demo_env None 100 ''u-1'') (Some ''other-key'')
                (world0\<lparr>public_key := Some ''cached''\<rparr>)))
     = [Get ''http://localhost:8080/realms/multi-tenant-app/protocol/openid-connect/certs'']
   \<and> fst (decode_token settings0 (demo_env None 100 ''u-1'') (Some ''other-key'')
            (world0\<lparr>public_key := Some ''cached''\<rparr>))
     = Inl ''Invalid token: Signature verification failed.''
   \<and> fst (decode_token settings0 (demo_env None 100 ''u-1'') (Some ''code-1'')
            (world0\<lparr>public_key := Some ''cached''\<rparr>))
     = Inr claims_abc"
proof -
  let ?env = "demo_env None 100 ''u-1''"
  let ?w = "world0\<lparr>public_key := Some ''cached''\<rparr>"
  have k: "certs_endpoint ?env = Inr ''{keys}''"
    by (simp add: demo_env_def)
  have j1: "jwt_decode ?env (Some ''other-key'') ''{keys}'' (decode_args settings0)
              = JWTError UnknownKeyId ''Signature verification failed.''"
    by (simp add: demo_env_def demo_tokens_def)
  have j2: "jwt_decode ?env (Some ''code-1'') ''{keys}'' (decode_args settings0) = Decoded claims_abc"
    by (simp add: demo_env_def demo_tokens_def)
  have s: "sent ?w = []" by (simp add: world0_def)
  have u: "certs_url settings0
             = ''http://localhost:8080/realms/multi-tenant-app/protocol/openid-connect/certs''"
    by (simp add: certs_url_def settings0_def)
  from decode_token_fetches_once[of settings0 ?env "Some ''other-key''" ?w] k j1 s u
  have a: "sent (snd (decode_token settings0 ?env (Some ''other-key'') ?w))
             = [Get ''http://localhost:8080/realms/multi-tenant-app/protocol/openid-connect/certs'']"
    and b: "fst (decode_token settings0 ?env (Some ''other-key'') ?w)
             = Inl ''Invalid token: Signature verification failed.''"
    by simp_all
  from decode_token_fetches_once[of settings0 ?env "Some ''code-1''" ?w] k j2
  have c: "fst (decode_token settings0 ?env (Some ''code-1'') ?w) = Inr claims_abc"
    by simp
  from a b c show ?thesis by simp
qed

text \<open>
  C4. Both verifiers (the backend's \<open>KeycloakService.decode_token\<close> and the service's
  \<open>decode_token\<close>) call the library with \<open>algorithms=["RS256"]\<close> and the options
  \<open>verify_aud\<close> and \<open>verify_iss\<close> set to \<open>False\<close>, and add no check of their own:
  whatever claims the library decodes against the fetched key set are returned as they
  are, whatever audience and issuer they name. Every \<open>JWTError\<close> of the library,
  whatever its cause (expired, malformed, unknown key id, signature mismatch, a claim),
  becomes the one exception \<open>Invalid token: ...\<close>; and claims are returned only when
  the library decoded the token.
\<close>

theorem decode_token_single_error_kind:
  "decode_args s =
     \<lparr>algorithms = [''RS256''], audience = Some (KEYCLOAK_CLIENT_ID s),
      options = [(''verify_aud'', False), (''verify_iss'', False)]\<rparr>
   \<and> algorithms (decode_args s) = [''RS256'']
   \<and> map_of (options (decode_args s)) ''verify_aud'' = Some False
   \<and> map_of (options (decode_args s)) ''verify_iss'' = Some False
   \<and> (\<forall>jwks c. certs_endpoint env = Inr jwks
          \<and> jwt_decode env tok jwks
               \<lparr>algorithms = [''RS256''], audience = Some (KEYCLOAK_CLIENT_ID s),
                options = [(''verify_aud'', False), (''verify_iss'', False)]\<rparr> = Decoded c \<longrightarrow>
        fst (decode_token s env tok w) = Inr c
        \<and> fst (service_decode_token s env tok tr) = Inr c)
   \<and> (\<forall>jwks cause m. certs_endpoint env = Inr jwks
          \<and> jwt_decode env tok jwks
               \<lparr>algorithms = [''RS256''], audience = Some (KEYCLOAK_CLIENT_ID s),
                options = [(''verify_aud'', False), (''verify_iss'', False)]\<rparr>
              = JWTError cause m \<longrightarrow>
        fst (decode_token s env tok w) = Inl (''Invalid token: '' @ m)
        \<and> fst (service_decode_token s env tok tr) = Inl (''Invalid token: '' @ m))
   \<and> (\<forall>c. fst (decode_token s env tok w) = Inr c
            \<or> fst (service_decode_token s env tok tr) = Inr c \<longrightarrow>
        (\<exists>jwks. certs_endpoint env = Inr jwks
           \<and> jwt_decode env tok jwks
                \<lparr>algorithms = [''RS256''], audience = Some (KEYCLOAK_CLIENT_ID s),
                 options = [(''verify_aud'', False), (''verify_iss'', False)]\<rparr> = Decoded c))"
proof -
  have a: "decode_args s =
     \<lparr>algorithms = [''RS256''], audience = Some (KEYCLOAK_CLIENT_ID s),
      options = [(''verify_aud'', False), (''verify_iss'', False)]\<rparr>"
    "algorithms (decode_args s) = [''RS256'']"
    "map_of (options (decode_args s)) ''verify_aud'' = Some False"
    "map_of (options (decode_args s)) ''verify_iss'' = Some False"
    by (simp_all add: decode_args_def)
  have ok: "\<forall>jwks c. certs_endpoint env = Inr jwks
          \<and> jwt_decode env tok jwks (decode_args s) = Decoded c \<longrightarrow>
        fst (decode_token s env tok w) = Inr c
        \<and> fst (service_decode_token s env tok tr) = Inr c"
    by (simp add: decode_token_def service_decode_token_def Let_def)
  have b: "\<forall>jwks cause m. certs_endpoint env = Inr jwks
          \<and> jwt_decode env tok jwks (decode_args s) = JWTError cause m \<longrightarrow>
        fst (decode_token s env tok w) = Inl (''Invalid token: '' @ m)
        \<and> fst (service_decode_token s env tok tr) = Inl (''Invalid token: '' @ m)"
    by (simp add: decode_token_def service_decode_token_def Let_def)
  have c: "\<forall>c. fst (decode_token s env tok w) = Inr c
             \<or> fst (service_decode_token s env tok tr) = Inr c \<longrightarrow>
        (\<exists>jwks. certs_endpoint env = Inr jwks
           \<and> jwt_decode env tok jwks (decode_args s) = Decoded c)"
    by (auto simp: decode_token_def service_decode_token_def Let_def
      split: sum.splits jose_outcome.splits)
  from a(2-4) ok b c show ?thesis
    unfolding a(1)[symmetric] using a(1) by blast
qed

theorem decode_token_single_error_kind_witness:
  "fst (decode_token settings0 (demo_env None 100 ''u-1'') (Some ''old'') world0)
     = Inl ''Invalid token: Signature has expired.''
   \<and> fst (service_decode_token settings0 (demo_env None 100 ''u-1'') (Some ''old'') [])
     = Inl ''Invalid token: Signature has expired.''
   \<and> fst (decode_token settings0 (demo_env None 100 ''u-1'') (Some ''foreign'') world0)
     = Inr claims_foreign
   \<and> fst (service_decode_token settings0 (demo_env None 100 ''u-1'') (Some ''foreign'') [])
     = Inr claims_foreign
   \<and> claims_foreign ''aud'' = Some ''another-client''
   \<and> KEYCLOAK_CLIENT_ID settings0 = ''fastapi-backend''"
proof -
  let ?env = "demo_env None 100 ''u-1''"
  let ?args = "\<lparr>algorithms = [''RS256''], audience = Some (KEYCLOAK_CLIENT_ID settings0),
                options = [(''verify_aud'', False), (''verify_iss'', False)]\<rparr>"
  have k: "certs_endpoint ?env = Inr ''{keys}''"
    by (simp add: demo_env_def)
  have j: "jwt_decode ?env (Some ''old'') ''{keys}'' ?args
              = JWTError Expired ''Signature has expired.''"
    by (simp add: demo_env_def demo_tokens_def)
  have f: "jwt_decode ?env (Some ''foreign'') ''{keys}'' ?args = Decoded claims_foreign"
    by (simp add: demo_env_def demo_tokens_def)
  from decode_token_single_error_kind[of settings0 ?env "Some ''old''" world0 "[]"] k j
  have a: "fst (decode_token settings0 ?env (Some ''old'') world0)
     = Inl ''Invalid token: Signature has expired.''
   \<and> fst (service_decode_token settings0 ?env (Some ''old'') [])
     = Inl ''Invalid token: Signature has expired.''"
    by simp
  from decode_token_single_error_kind[of settings0 ?env "Some ''foreign''" world0 "[]"] k f
  have b: "fst (decode_token settings0 ?env (Some ''foreign'') world0) = Inr claims_foreign
   \<and> fst (service_decode_token settings0 ?env (Some ''foreign'') []) = Inr claims_foreign"
    by simp
  have c: "claims_foreign ''aud'' = Some ''another-client''"
    "KEYCLOAK_CLIENT_ID settings0 = ''fastapi-backend''"
    by (simp_all add: claims_foreign_def settings0_def)
  from a b c show ?thesis by simp
qed

section \<open>The current user and logout\<close>



text \<open>
  C10. When \<open>get_current_user\<close> rejects the bearer token of a logout request, the
  request ends with that same error and the only request sent upstream is the key set
  fetch of the verification: the revocation call is not made. When it accepts, the
  revocation call for the supplied refresh token follows.
\<close>

theorem logout_requires_current_user:
  "(\<forall>e w1. get_current_user s env bearer w = (Inl e, w1) \<longrightarrow>
      fst (logout s env bearer refresh_tok w) = Inl e
      \<and> sent (snd (logout s env bearer refresh_tok w)) = sent w @ [Get (certs_url s)])
   \<and> (\<forall>u w1. get_current_user s env bearer w = (Inr u, w1) \<longrightarrow>
      sent (snd (logout s env bearer refresh_tok w)) =
        sent w @ [Get (certs_url s),
                  Post (logout_url s) [(''token'', refresh_tok),
                     (''client_id'', KEYCLOAK_CLIENT_ID s),
                     (''client_secret'', KEYCLOAK_CLIENT_SECRET s)]])"
proof (intro conjI allI impI)
  fix e w1 assume a: "get_current_user s env bearer w = (Inl e, w1)"
  then show "fst (logout s env bearer refresh_tok w) = Inl e"
    by (simp add: logout_def)
  from a get_current_user_world[of s env bearer w]
  show "sent (snd (logout s env bearer refresh_tok w)) = sent w @ [Get (certs_url s)]"
    by (simp add: logout_def)
next
  fix u w1 assume a: "get_current_user s env bearer w = (Inr u, w1)"
  with get_current_user_world[of s env bearer w]
  have w1: "w1 = w\<lparr>sent := sent w @ [Get (certs_url s)]\<rparr>" by simp
  obtain r2 w2 where rv: "revoke_token s env refresh_tok w1 = (r2, w2)"
    by (cases "revoke_token s env refresh_tok w1")
  with revoke_token_world[of s env refresh_tok w1]
  have w2: "sent w2 = sent w1 @ [Post (logout_url s) [(''token'', refresh_tok),
                     (''client_id'', KEYCLOAK_CLIENT_ID s),
                     (''client_secret'', KEYCLOAK_CLIENT_SECRET s)]]" by simp
  have "snd (logout s env bearer refresh_tok w) = w2"
    using a rv by (simp add: logout_def split: sum.splits)
  then show "sent (snd (logout s env bearer refresh_tok w)) =
        sent w @ [Get (certs_url s),
                  Post (logout_url s) [(''token'', refresh_tok),
                     (''client_id'', KEYCLOAK_CLIENT_ID s),
                     (''client_secret'', KEYCLOAK_CLIENT_SECRET s)]]"
    using w2 w1 by simp
qed

theorem logout_requires_current_user_witness:
  "fst (logout settings0 (demo_env None 100 ''u-1'') ''code-1'' ''r1''
          (world0\<lparr>users := [user_abc\<lparr>status_u := ''inactive''\<rparr>]\<rparr>))
     = Inl (HTTPException 403 ''User account is not active'')
   \<and> sent (snd (logout settings0 (demo_env None 100 ''u-1'') ''code-1'' ''r1''
          (world0\<lparr>users := [user_abc\<lparr>status_u := ''inactive''\<rparr>]\<rparr>)))
     = [Get ''http://localhost:8080/realms/multi-tenant-app/protocol/openid-connect/certs'']"
proof -
  let ?env = "demo_env None 100 ''u-1''"
  let ?w = "world0\<lparr>users := [user_abc\<lparr>status_u := ''inactive''\<rparr>]\<rparr>"
  have g: "get_current_user settings0 ?env ''code-1'' ?w
             = (Inl (HTTPException 403 ''User account is not active''),
                ?w\<lparr>sent := sent ?w @ [Get (certs_url settings0)]\<rparr>)"
    by (simp add: get_current_user_def demo_decode demo_tokens_def claims_abc_def falsy_def
          user_by_sub_def user_abc_def demo_read_ok)
  have s: "sent ?w = []" by (simp add: world0_def)
  have u: "certs_url settings0
             = ''http://localhost:8080/realms/multi-tenant-app/protocol/openid-connect/certs''"
    by (simp add: certs_url_def settings0_def)
  from logout_requires_current_user[of settings0 ?env "''code-1''" ?w "''r1''"] g s u
  show ?thesis by simp
qed


section \<open>Tenant identification\<close>

lemma unquote_plain:
  "c \<noteq> CHR ''%'' \<Longrightarrow>
   unquote_plus (c # cs) = (if c = CHR ''+'' then CHR '' '' else c) # unquote_plus cs"
  by (cases "(c # cs)" rule: unquote_plus.cases) auto

lemma unquote_percent:
  "unquote_plus (CHR ''%'' # a # b # cs) = char_of (hexval a * 16 + hexval b) # unquote_plus cs"
  by simp

lemma hexval_table: "list_all (\<lambda>k. hexval (hexdigits ! k) = k) [0..<16]"
  by code_simp

lemma hexval_hexdigits: "k < 16 \<Longrightarrow> hexval (hexdigits ! k) = k"
  using hexval_table by (simp add: list_all_iff)

lemma hex_pair:
  "char_of (hexval (hexdigits ! (of_char c div 16)) * 16
            + hexval (hexdigits ! (of_char c mod 16))) = c"
proof -
  have "(of_char c :: nat) < 256" by simp
  then have d: "(of_char c :: nat) div 16 < 16" by arith
  have m: "(of_char c :: nat) mod 16 < 16" by simp
  show ?thesis
    by (simp add: hexval_hexdigits[OF d] hexval_hexdigits[OF m])
qed

lemma safe_not_special: "c \<in> set always_safe \<Longrightarrow> c \<noteq> CHR ''%'' \<and> c \<noteq> CHR ''+''"
  by (auto simp: always_safe_def)

lemma unquote_quote_char: "unquote_plus (quote_char c @ cs) = c # unquote_plus cs"
proof (cases "c \<in> set always_safe")
  case True
  then show ?thesis
    using safe_not_special[OF True] by (simp add: quote_char_def unquote_plain)
next
  case False
  show ?thesis
  proof (cases "c = CHR '' ''")
    case True
    then show ?thesis using False by (simp add: quote_char_def unquote_plain)
  next
    case sp: False
    then show ?thesis using False
      by (simp add: quote_char_def hex_pair del: unquote_plus.simps add: unquote_percent)
  qed
qed

lemma unquote_quote_plus: "unquote_plus (quote_plus s) = s"
  by (induction s) (simp_all add: quote_plus_def unquote_quote_char)

lemma quote_redirect0:
  "quote_plus ''http://localhost:3000/auth/callback''
     = ''http%3A%2F%2Flocalhost%3A3000%2Fauth%2Fcallback''"
  by (simp add: quote_plus_Cons quote_plus_Nil quote_char_def always_safe_def hexdigits_def)

text \<open>
  A department with a NUL character matches no tenant, and the answer is not a
  response that says not found: the query raises and the handler answers 500.
\<close>

theorem identify_tenant_nul_department:
  "active_tenant (''tenant-a'' @ [CHR 0x00]) (tenants world0) = None
   \<and> identify_tenant settings0 (demo_env None 100 ''u-1'') world0 (''tenant-a'' @ [CHR 0x00])
       = Inl (HTTPException 500
           ''Failed to identify tenant: A string literal cannot contain NUL (0x00) characters.'')"
  by (simp add: identify_tenant_def read_raises_def demo_env_def active_tenant_def world0_def
        tenant_a_def tenant_b_def tenant_c_def)

text \<open>
  C6, as the code has it. The identifiers of the tenants are distinct (the unique index
  on \<open>tenants.identifier\<close>). When the lookup raises, as it does for a department that
  holds a NUL character, \<open>identify_tenant\<close> fails with status 500. When the lookup
  returns, \<open>identify_tenant\<close> returns a response, not an error. The response says
  found exactly when a tenant has the department as identifier and status \<open>active\<close>;
  it then carries the name and id of that tenant, the only tenant with the identifier.
  When a tenant with the identifier is not active, or no tenant has it, the response
  says not found and its three other fields are \<open>None\<close>.
\<close>

theorem identify_tenant_only_active_match:
  assumes "distinct (map identifier_t (tenants w))"
  shows "(\<forall>m. read_raises env TenantByIdentifier (Some d) = Some m \<longrightarrow>
            identify_tenant s env w d
              = Inl (HTTPException 500 (''Failed to identify tenant: '' @ m)))
       \<and> (CHR 0x00 \<in> set d \<longrightarrow>
            (\<exists>m. identify_tenant s env w d
                   = Inl (HTTPException 500 (''Failed to identify tenant: '' @ m))))
       \<and> (read_raises env TenantByIdentifier (Some d) = None \<longrightarrow>
           (\<exists>r. identify_tenant s env w d = Inr r
           \<and> (tenant_found r \<longleftrightarrow>
                (\<exists>t\<in>set (tenants w). identifier_t t = d \<and> status_t t = ''active''))
           \<and> (tenant_found r \<longrightarrow>
                (\<exists>t\<in>set (tenants w). identifier_t t = d \<and> status_t t = ''active''
                   \<and> tenant_name r = Some (name t) \<and> tenant_id_r r = Some (id_t t)
                   \<and> (\<forall>t'\<in>set (tenants w). identifier_t t' = d \<longrightarrow> t' = t)))
           \<and> ((\<exists>t\<in>set (tenants w). identifier_t t = d \<and> status_t t \<noteq> ''active'') \<longrightarrow>
                \<not> tenant_found r)
           \<and> (\<not> tenant_found r \<longrightarrow>
                tenant_name r = None \<and> tenant_id_r r = None \<and> keycloak_auth_url r = None)))"
proof -
  have raise: "\<forall>m. read_raises env TenantByIdentifier (Some d) = Some m \<longrightarrow>
            identify_tenant s env w d
              = Inl (HTTPException 500 (''Failed to identify tenant: '' @ m))"
    by (simp add: identify_tenant_def)
  have nul: "CHR 0x00 \<in> set d \<longrightarrow>
            (\<exists>m. identify_tenant s env w d
                   = Inl (HTTPException 500 (''Failed to identify tenant: '' @ m)))"
  proof
    assume "CHR 0x00 \<in> set d"
    then have "\<exists>m. read_raises env TenantByIdentifier (Some d) = Some m"
      by (simp add: read_raises_def split: option.splits)
    with raise show "\<exists>m. identify_tenant s env w d
                   = Inl (HTTPException 500 (''Failed to identify tenant: '' @ m))"
      by blast
  qed
  have ret: "read_raises env TenantByIdentifier (Some d) = None \<longrightarrow>
           (\<exists>r. identify_tenant s env w d = Inr r
           \<and> (tenant_found r \<longleftrightarrow>
                (\<exists>t\<in>set (tenants w). identifier_t t = d \<and> status_t t = ''active''))
           \<and> (tenant_found r \<longrightarrow>
                (\<exists>t\<in>set (tenants w). identifier_t t = d \<and> status_t t = ''active''
                   \<and> tenant_name r = Some (name t) \<and> tenant_id_r r = Some (id_t t)
                   \<and> (\<forall>t'\<in>set (tenants w). identifier_t t' = d \<longrightarrow> t' = t)))
           \<and> ((\<exists>t\<in>set (tenants w). identifier_t t = d \<and> status_t t \<noteq> ''active'') \<longrightarrow>
                \<not> tenant_found r)
           \<and> (\<not> tenant_found r \<longrightarrow>
                tenant_name r = None \<and> tenant_id_r r = None \<and> keycloak_auth_url r = None))"
  proof
    assume rd: "read_raises env TenantByIdentifier (Some d) = None"
    show "\<exists>r. identify_tenant s env w d = Inr r
           \<and> (tenant_found r \<longleftrightarrow>
                (\<exists>t\<in>set (tenants w). identifier_t t = d \<and> status_t t = ''active''))
           \<and> (tenant_found r \<longrightarrow>
                (\<exists>t\<in>set (tenants w). identifier_t t = d \<and> status_t t = ''active''
                   \<and> tenant_name r = Some (name t) \<and> tenant_id_r r = Some (id_t t)
                   \<and> (\<forall>t'\<in>set (tenants w). identifier_t t' = d \<longrightarrow> t' = t)))
           \<and> ((\<exists>t\<in>set (tenants w). identifier_t t = d \<and> status_t t \<noteq> ''active'') \<longrightarrow>
                \<not> tenant_found r)
           \<and> (\<not> tenant_found r \<longrightarrow>
                tenant_name r = None \<and> tenant_id_r r = None \<and> keycloak_auth_url r = None)"
    proof (cases "active_tenant d (tenants w)")
      case None
      then have r: "identify_tenant s env w d =
          Inr \<lparr>tenant_found = False, tenant_name = None, tenant_id_r = None,
               keycloak_auth_url = None\<rparr>"
        using rd by (simp add: identify_tenant_def)
      from None have no: "\<not> (\<exists>t\<in>set (tenants w). identifier_t t = d \<and> status_t t = ''active'')"
        by (simp add: active_tenant_None)
      show ?thesis
        apply (rule exI[of _ "\<lparr>tenant_found = False, tenant_name = None, tenant_id_r = None,
                               keycloak_auth_url = None\<rparr>"])
        using r no by simp
    next
      case (Some t)
      then have t: "t \<in> set (tenants w)" "identifier_t t = d" "status_t t = ''active''"
        by (auto dest: active_tenant_Some)
      have uniq: "\<forall>t'\<in>set (tenants w). identifier_t t' = d \<longrightarrow> t' = t"
        using assms t by (auto intro: distinct_map_eq)
      define r where "r = \<lparr>tenant_found = True, tenant_name = Some (name t),
           tenant_id_r = Some (id_t t),
           keycloak_auth_url = Some (auth_url s @ ''?'' @ urlencode
                    [(''client_id'', KEYCLOAK_CLIENT_ID s),
                     (''response_type'', ''code''),
                     (''redirect_uri'', OAUTH_REDIRECT_URI s),
                     (''kc_idp_hint'', keycloak_idp_alias t)])\<rparr>"
      have r: "identify_tenant s env w d = Inr r"
        using Some rd by (simp add: identify_tenant_def Let_def r_def)
      have f: "tenant_found r" "tenant_name r = Some (name t)" "tenant_id_r r = Some (id_t t)"
        by (simp_all add: r_def)
      have c2: "\<exists>t\<in>set (tenants w). identifier_t t = d \<and> status_t t = ''active''"
        using t by blast
      have c3: "\<exists>t\<in>set (tenants w). identifier_t t = d \<and> status_t t = ''active''
                       \<and> tenant_name r = Some (name t) \<and> tenant_id_r r = Some (id_t t)
                       \<and> (\<forall>t'\<in>set (tenants w). identifier_t t' = d \<longrightarrow> t' = t)"
        using t f uniq by blast
      have c4: "\<not> (\<exists>t\<in>set (tenants w). identifier_t t = d \<and> status_t t \<noteq> ''active'')"
        using uniq t(3) by blast
      show ?thesis
        apply (rule exI[of _ r])
        using r f(1) c2 c3 c4 by blast
    qed
  qed
  from raise nul ret show ?thesis by blast
qed

theorem identify_tenant_only_active_match_witness:
  "distinct (map identifier_t (tenants world0))
   \<and> identify_tenant settings0 (demo_env None 100 ''u-1'') world0 ''tenant-c''
       = Inr \<lparr>tenant_found = False, tenant_name = None, tenant_id_r = None,
              keycloak_auth_url = None\<rparr>
   \<and> identify_tenant settings0 (demo_env None 100 ''u-1'') world0 ''unknown-dept''
       = Inr \<lparr>tenant_found = False, tenant_name = None, tenant_id_r = None,
              keycloak_auth_url = None\<rparr>"
proof -
  let ?env = "demo_env None 100 ''u-1''"
  have d: "distinct (map identifier_t (tenants world0))"
    by (simp add: world0_def tenant_a_def tenant_b_def tenant_c_def)
  have c: "\<exists>t\<in>set (tenants world0). identifier_t t = ''tenant-c'' \<and> status_t t \<noteq> ''active''"
    by (simp add: world0_def tenant_a_def tenant_b_def tenant_c_def)
  have n: "\<not> (\<exists>t\<in>set (tenants world0). identifier_t t = ''unknown-dept'' \<and> status_t t = ''active'')"
    by (simp add: world0_def tenant_a_def tenant_b_def tenant_c_def)
  have r1: "read_raises ?env TenantByIdentifier (Some ''tenant-c'') = None"
    by (simp add: demo_read_ok)
  have r2: "read_raises ?env TenantByIdentifier (Some ''unknown-dept'') = None"
    by (simp add: demo_read_ok)
  from identify_tenant_only_active_match[OF d, of ?env "''tenant-c''" settings0] c r1
  obtain r where r: "identify_tenant settings0 ?env world0 ''tenant-c'' = Inr r" "\<not> tenant_found r"
    "tenant_name r = None" "tenant_id_r r = None" "keycloak_auth_url r = None"
    by blast
  from identify_tenant_only_active_match[OF d, of ?env "''unknown-dept''" settings0] n r2
  obtain r' where r': "identify_tenant settings0 ?env world0 ''unknown-dept'' = Inr r'"
    "\<not> tenant_found r'"
    "tenant_name r' = None" "tenant_id_r r' = None" "keycloak_auth_url r' = None"
    by blast
  have "r = \<lparr>tenant_found = False, tenant_name = None, tenant_id_r = None,
              keycloak_auth_url = None\<rparr>"
    using r by (cases r) simp
  moreover have "r' = \<lparr>tenant_found = False, tenant_name = None, tenant_id_r = None,
              keycloak_auth_url = None\<rparr>"
    using r' by (cases r') simp
  ultimately show ?thesis using d r(1) r'(1) by simp
qed

text \<open>
  C7. For a tenant the lookup resolved, the response carries the URL made of the
  settings' authorize endpoint and the query \<open>client_id\<close>, \<open>response_type=code\<close>,
  \<open>redirect_uri\<close>, \<open>kc_idp_hint\<close> in this order, each value form-encoded. Decoding
  gives back the client id, the redirect URI of the settings and the tenant's alias;
  and an alias of unreserved characters stands in the URL as it is. The function reads
  the settings and the tenants and returns no state: it writes nothing and sends
  nothing.
\<close>

theorem identify_tenant_authorization_url:
  assumes "read_raises env TenantByIdentifier (Some d) = None"
    and "active_tenant d (tenants w) = Some t"
  shows "identify_tenant s env w d =
           Inr \<lparr>tenant_found = True, tenant_name = Some (name t), tenant_id_r = Some (id_t t),
                keycloak_auth_url = Some
                  (auth_url s @ ''?client_id='' @ quote_plus (KEYCLOAK_CLIENT_ID s)
                     @ ''&response_type=code''
                     @ ''&redirect_uri='' @ quote_plus (OAUTH_REDIRECT_URI s)
                     @ ''&kc_idp_hint='' @ quote_plus (keycloak_idp_alias t))\<rparr>
         \<and> unquote_plus (quote_plus (KEYCLOAK_CLIENT_ID s)) = KEYCLOAK_CLIENT_ID s
         \<and> unquote_plus (quote_plus (OAUTH_REDIRECT_URI s)) = OAUTH_REDIRECT_URI s
         \<and> unquote_plus (quote_plus (keycloak_idp_alias t)) = keycloak_idp_alias t
         \<and> (set (keycloak_idp_alias t) \<subseteq> set always_safe \<longrightarrow>
              quote_plus (keycloak_idp_alias t) = keycloak_idp_alias t)"
  using assms
  by (simp add: identify_tenant_def Let_def urlencode_four key_client_id key_response_type
        key_code key_redirect_uri key_kc_idp_hint quote_plus_safe unquote_quote_plus)

theorem identify_tenant_authorization_url_witness:
  "identify_tenant settings0 (demo_env None 100 ''u-1'') world0 ''tenant-a'' =
     Inr \<lparr>tenant_found = True, tenant_name = Some ''Tenant A Corp'', tenant_id_r = Some ''t-a'',
          keycloak_auth_url = Some
            (''http://localhost/auth/keycloak/realms/multi-tenant-app/protocol/openid-connect/auth''
             @ ''?client_id=fastapi-backend&response_type=code''
             @ ''&redirect_uri=http%3A%2F%2Flocalhost%3A3000%2Fauth%2Fcallback''
             @ ''&kc_idp_hint=microsoft'')\<rparr>"
proof -
  have rd: "read_raises (demo_env None 100 ''u-1'') TenantByIdentifier (Some ''tenant-a'') = None"
    by (simp add: demo_read_ok)
  have a: "active_tenant ''tenant-a'' (tenants world0) = Some tenant_a"
    by (simp add: active_tenant_def world0_def tenant_a_def)
  have safe: "quote_plus ''microsoft'' = ''microsoft''"
    "quote_plus ''fastapi-backend'' = ''fastapi-backend''"
    by (rule quote_plus_safe, simp add: always_safe_def)+
  from identify_tenant_authorization_url[OF rd a, of settings0]
  show ?thesis
    by (simp add: settings0_def tenant_a_def auth_url_def safe quote_redirect0)
qed

section \<open>User reconciliation\<close>

lemma exchange_world:
  "exchange_code_for_token s env code ru w = (r, w') \<Longrightarrow>
     users w' = users w \<and> tenants w' = tenants w \<and> session w' = session w"
  by (auto simp: exchange_code_for_token_def Let_def)

lemma refresh_access_world:
  "refresh_access_token s env rt w = (r, w') \<Longrightarrow>
     users w' = users w \<and> tenants w' = tenants w \<and> session w' = session w"
  by (auto simp: refresh_access_token_def Let_def)

lemma decode_token_db:
  "decode_token s env tok w = (r, w') \<Longrightarrow>
     users w' = users w \<and> tenants w' = tenants w \<and> session w' = session w"
  by (auto simp: decode_token_def Let_def)

lemma get_db_fields:
  "users (get_db w) = users w \<and> tenants (get_db w) = tenants w \<and> session (get_db w) = None"
  by (simp add: get_db_def)

lemma db_rollback_fields:
  "users (db_rollback w) = users w \<and> tenants (db_rollback w) = tenants w
   \<and> session (db_rollback w) = None"
  by (simp add: db_rollback_def)

text \<open>\<open>callback_prepare\<close> once the exchange and the verification have returned.\<close>

lemma callback_prepare_decoded:
  assumes e: "exchange_code_for_token s env code (OAUTH_REDIRECT_URI s) (get_db w) = (Inr td, w1)"
    and d: "decode_token s env (access_token td) w1 = (Inr c, w2)"
  shows "callback_prepare s env code w =
     (if falsy (c ''sub'') \<or> falsy (c ''email'')
      then (Inl (HTTPException 400 ''Missing required user information in token''), w2)
      else
        (case read_raises env TenantByIdentifier (Some ''tenant-a'') of
           Some m \<Rightarrow> (Inl (callback_failed m), db_rollback w2)
         | None \<Rightarrow>
             (case active_tenant ''tenant-a'' (tenants w) of
                None \<Rightarrow>
                  (Inl (HTTPException 404
                         (''No active tenant found for department: '' @ ''tenant-a'')), w2)
              | Some tenant \<Rightarrow>
                  (case read_raises env UserBySub (c ''sub'') of
                     Some m \<Rightarrow> (Inl (callback_failed m), db_rollback w2)
                   | None \<Rightarrow>
                       (Inr (td, c, tenant,
                             find_or_create_user env tenant (the (c ''sub'')) (the (c ''email''))
                               (c ''given_name'') (c ''family_name'') ''tenant-a'' (users w)),
                        w2\<lparr>session :=
                             Some (find_or_create_user env tenant (the (c ''sub''))
                                     (the (c ''email'')) (c ''given_name'') (c ''family_name'')
                                     ''tenant-a'' (users w))\<rparr>)))))"
    and "users w2 = users w \<and> tenants w2 = tenants w \<and> session w2 = None"
proof -
  from exchange_world[OF e] decode_token_db[OF d] get_db_fields[of w]
  show db: "users w2 = users w \<and> tenants w2 = tenants w \<and> session w2 = None"
    by simp
  then show "callback_prepare s env code w =
     (if falsy (c ''sub'') \<or> falsy (c ''email'')
      then (Inl (HTTPException 400 ''Missing required user information in token''), w2)
      else
        (case read_raises env TenantByIdentifier (Some ''tenant-a'') of
           Some m \<Rightarrow> (Inl (callback_failed m), db_rollback w2)
         | None \<Rightarrow>
             (case active_tenant ''tenant-a'' (tenants w) of
                None \<Rightarrow>
                  (Inl (HTTPException 404
                         (''No active tenant found for department: '' @ ''tenant-a'')), w2)
              | Some tenant \<Rightarrow>
                  (case read_raises env UserBySub (c ''sub'') of
                     Some m \<Rightarrow> (Inl (callback_failed m), db_rollback w2)
                   | None \<Rightarrow>
                       (Inr (td, c, tenant,
                             find_or_create_user env tenant (the (c ''sub'')) (the (c ''email''))
                               (c ''given_name'') (c ''family_name'') ''tenant-a'' (users w)),
                        w2\<lparr>session :=
                             Some (find_or_create_user env tenant (the (c ''sub''))
                                     (the (c ''email'')) (c ''given_name'') (c ''family_name'')
                                     ''tenant-a'' (users w))\<rparr>)))))"
    using e d by (simp add: callback_prepare_def Let_def falsy_def split: option.splits)
qed

lemma callback_prepare_db:
  assumes "callback_prepare s env code w = (r, w2)"
  shows "users w2 = users w \<and> tenants w2 = tenants w"
proof -
  obtain r1 w1 where e: "exchange_code_for_token s env code (OAUTH_REDIRECT_URI s) (get_db w) = (r1, w1)"
    by (cases "exchange_code_for_token s env code (OAUTH_REDIRECT_URI s) (get_db w)")
  note e1 = exchange_world[OF e] get_db_fields[of w]
  show ?thesis
  proof (cases r1)
    case (Inl m)
    with assms e e1 show ?thesis
      by (auto simp: callback_prepare_def db_rollback_def)
  next
    case td: (Inr td)
    obtain rd wd where d: "decode_token s env (access_token td) w1 = (rd, wd)"
      by (cases "decode_token s env (access_token td) w1")
    note d1 = decode_token_db[OF d]
    show ?thesis
    proof (cases rd)
      case (Inl m)
      with assms e td d e1 d1 show ?thesis
        by (auto simp: callback_prepare_def db_rollback_def)
    next
      case (Inr c)
      note u = callback_prepare_decoded[OF e[unfolded td] d[unfolded Inr]]
      show ?thesis
        using assms u(2) unfolding u(1)
        by (auto simp: db_rollback_def split: if_splits option.splits)
    qed
  qed
qed

lemma callback_prepare_Inl:
  assumes "callback_prepare s env code w = (Inl e, w2)"
  shows "session w2 = None"
proof -
  obtain r1 w1 where e: "exchange_code_for_token s env code (OAUTH_REDIRECT_URI s) (get_db w) = (r1, w1)"
    by (cases "exchange_code_for_token s env code (OAUTH_REDIRECT_URI s) (get_db w)")
  note e1 = exchange_world[OF e] get_db_fields[of w]
  show ?thesis
  proof (cases r1)
    case (Inl m)
    with assms e e1 show ?thesis
      by (auto simp: callback_prepare_def db_rollback_def)
  next
    case td: (Inr td)
    obtain rd wd where d: "decode_token s env (access_token td) w1 = (rd, wd)"
      by (cases "decode_token s env (access_token td) w1")
    note d1 = decode_token_db[OF d]
    show ?thesis
    proof (cases rd)
      case (Inl m)
      with assms e td d e1 d1 show ?thesis
        by (auto simp: callback_prepare_def db_rollback_def)
    next
      case (Inr c)
      note u = callback_prepare_decoded[OF e[unfolded td] d[unfolded Inr]]
      show ?thesis
        using assms u(2) unfolding u(1)
        by (auto simp: db_rollback_def split: if_splits option.splits)
    qed
  qed
qed

lemma callback_prepare_Inr:
  assumes "callback_prepare s env code w = (Inr (td, c, tenant, p), w2)"
  shows "\<not> falsy (c ''sub'') \<and> \<not> falsy (c ''email'')
       \<and> active_tenant ''tenant-a'' (tenants w) = Some tenant
       \<and> p = find_or_create_user env tenant (the (c ''sub'')) (the (c ''email''))
               (c ''given_name'') (c ''family_name'') ''tenant-a'' (users w)
       \<and> session w2 = Some p"
proof -
  obtain r1 w1 where e: "exchange_code_for_token s env code (OAUTH_REDIRECT_URI s) (get_db w) = (r1, w1)"
    by (cases "exchange_code_for_token s env code (OAUTH_REDIRECT_URI s) (get_db w)")
  show ?thesis
  proof (cases r1)
    case (Inl m)
    with assms e show ?thesis by (simp add: callback_prepare_def)
  next
    case td: (Inr td')
    obtain rd wd where d: "decode_token s env (access_token td') w1 = (rd, wd)"
      by (cases "decode_token s env (access_token td') w1")
    show ?thesis
    proof (cases rd)
      case (Inl m)
      with assms e td d show ?thesis by (simp add: callback_prepare_def)
    next
      case (Inr c')
      note u = callback_prepare_decoded[OF e[unfolded td] d[unfolded Inr]]
      show ?thesis
        using assms unfolding u(1)
        by (auto split: if_splits option.splits)
    qed
  qed
qed

lemma find_or_create_row_written:
  assumes "commit env (find_or_create_user env t sub em fn ln d us) us = Inr us'"
  shows "pending_row (find_or_create_user env t sub em fn ln d us) \<in> set us'"
proof (cases "user_by_sub sub us")
  case None
  then show ?thesis
    using assms
    by (auto simp: find_or_create_user_def pending_row_def commit_def
        split: option.splits)
next
  case (Some u)
  then have uin: "u \<in> set us"
    unfolding user_by_sub_def by (auto simp: find_Some_iff)
  define u' where "u' = pending_row (find_or_create_user env t sub em fn ln d us)"
  have p: "find_or_create_user env t sub em fn ln d us = Update u'" and i: "id_u u' = id_u u"
    using Some by (simp_all add: find_or_create_user_def u'_def pending_row_def)
  from assms p have "us' = map (\<lambda>x. if id_u x = id_u u' then u' else x) us"
    by (auto simp: commit_def split: option.splits)
  with uin i have "u' \<in> set us'" by force
  then show ?thesis unfolding u'_def .
qed

lemma callback_Inr:
  assumes "callback s env code w = (Inr r, w')"
  shows "\<exists>td c tenant p w2. callback_prepare s env code w = (Inr (td, c, tenant, p), w2)
           \<and> commit env p (users w) = Inr (users w')
           \<and> tenants w' = tenants w
           \<and> session w' = None
           \<and> user r = user_response (pending_row p) tenant"
proof -
  obtain rp w2 where p: "callback_prepare s env code w = (rp, w2)"
    by (cases "callback_prepare s env code w")
  note db = callback_prepare_db[OF p]
  show ?thesis
  proof (cases rp)
    case (Inl e)
    with assms p show ?thesis by (simp add: callback_def)
  next
    case (Inr q)
    obtain td c tenant pp where q: "q = (td, c, tenant, pp)" by (cases q)
    show ?thesis
      using assms p Inr q db
      by (auto simp: callback_def Let_def token_response_def db_rollback_def
          split: sum.splits option.splits)
  qed
qed

lemma callback_db:
  assumes "callback s env code w = (r, w')"
  shows "tenants w' = tenants w \<and> session w' = None
       \<and> (users w' = users w
          \<or> (\<exists>td c tenant p w2. callback_prepare s env code w = (Inr (td, c, tenant, p), w2)
                \<and> commit env p (users w) = Inr (users w')))"
proof -
  obtain rp w2 where p: "callback_prepare s env code w = (rp, w2)"
    by (cases "callback_prepare s env code w")
  note db = callback_prepare_db[OF p]
  show ?thesis
  proof (cases rp)
    case (Inl e)
    with assms p db callback_prepare_Inl[of s env code w e w2] show ?thesis
      by (auto simp add: callback_def)
  next
    case (Inr q)
    obtain td c tenant pp where q: "q = (td, c, tenant, pp)" by (cases q)
    show ?thesis
      using assms p Inr q db
      by (auto simp: callback_def Let_def db_rollback_def split: sum.splits option.splits)
  qed
qed

lemma user_by_sub_Some:
  "user_by_sub sub us = Some u \<Longrightarrow> u \<in> set us \<and> keycloak_user_id u = sub"
  unfolding user_by_sub_def by (auto simp: find_Some_iff)

lemma user_by_sub_None:
  "user_by_sub sub us = None \<Longrightarrow> sub \<notin> set (map keycloak_user_id us)"
  unfolding user_by_sub_def by (auto simp: find_None_iff)






lemma map_key_unchanged:
  "(\<And>x. g (f x) = g x) \<Longrightarrow> map g (map f xs) = map g xs"
  by simp

lemma update_by_id:
  assumes "distinct (map id_u us)" "u \<in> set us" "id_u u' = id_u u"
  shows "map (\<lambda>x. if id_u x = id_u u' then u' else x) us = map (\<lambda>x. if x = u then u' else x) us"
proof (rule map_cong[OF refl])
  fix x assume "x \<in> set us"
  with assms have "id_u x = id_u u \<longleftrightarrow> x = u"
    by (auto dest: distinct_map_eq)
  with assms(3) show "(if id_u x = id_u u' then u' else x) = (if x = u then u' else x)"
    by simp
qed

lemma commit_Insert:
  "commit env (Insert u) us = Inr us' \<Longrightarrow>
     us' = us @ [u] \<and> id_u u \<notin> set (map id_u us)
     \<and> keycloak_user_id u \<notin> set (map keycloak_user_id us)"
  by (auto simp: commit_def insert_violation_def list_ex_iff split: option.splits if_splits)

lemma commit_Update:
  "commit env (Update u) us = Inr us' \<Longrightarrow>
     us' = map (\<lambda>x. if id_u x = id_u u then u else x) us"
  by (auto simp: commit_def split: option.splits)

lemma commit_Inl_fault:
  "commit env p us = Inl m \<Longrightarrow>
     commit_fault env = Some m
     \<or> (\<exists>c. m = integrity_error env c
            \<and> (insert_violation us (pending_row p) = Some c
                \<or> update_violation us (pending_row p) = Some c))"
  by (auto simp: commit_def pending_row_def split: pending.splits option.splits)


lemmas demo_eval =
  callback_def callback_prepare_def exchange_code_for_token_def refresh_access_token_def
  decode_token_def decode_args_def demo_env_def demo_tokens_def settings0_def world0_def
  tenant_a_def tenant_b_def tenant_c_def claims_abc_def claims_abc_b_def claims_abc_new_def
  falsy_def active_tenant_def find_or_create_user_def user_by_sub_def commit_def
  insert_violation_def update_violation_def token_response_def user_response_def
  tenant_response_def pending_row_def Let_def get_db_def db_rollback_def read_raises_def
  callback_failed_def


lemma demo_callback1:
  "\<exists>r. callback settings0 (demo_env (Some ''r1'') 100 ''u-1'') ''code-1'' world0 = (Inr r, world1)"
  by (simp add: demo_eval world1_def user_abc_created_def)





text \<open>
  C3. The callback does not read the department from the claims. With a token whose
  claims name department \<open>tenant-b\<close>, and tenant B active, the user is stored with
  department \<open>tenant-a\<close> under tenant A: the source sets
  \<open>department = "tenant-a"  # Department from Azure AD\<close>.
\<close>

theorem callback_department_is_literal:
  "fst (decode_token settings0 (demo_env (Some ''r1'') 100 ''u-1'') (Some ''code-b'') world0)
     = Inr claims_abc_b
   \<and> claims_abc_b ''department'' = Some ''tenant-b''
   \<and> active_tenant ''tenant-b'' (tenants world0) = Some tenant_b
   \<and> map department
        (users (snd (callback settings0 (demo_env (Some ''r1'') 100 ''u-1'') ''code-b'' world0)))
       = [''tenant-a'']
   \<and> map tenant_id
        (users (snd (callback settings0 (demo_env (Some ''r1'') 100 ''u-1'') ''code-b'' world0)))
       = [''t-a'']"
  by (simp add: demo_eval)

text \<open>
  The store fails on \<open>db.refresh(user)\<close>, after the commit: the callback ends with
  status 500 and the new row is in the table.
\<close>

theorem callback_fails_on_refresh_after_commit:
  "users world0 = []
   \<and> users world1 = [user_abc_created]
   \<and> read_raises demo_env_refresh_fault RefreshUser None
       = Some ''server closed the connection unexpectedly''
   \<and> callback settings0 demo_env_refresh_fault ''code-1'' world0
       = (Inl (HTTPException 500
                 ''Callback processing failed: server closed the connection unexpectedly''),
          world1)"
  by (simp add: demo_env_refresh_fault_def demo_eval world1_def user_abc_created_def)

text \<open>
  The same holds for an exception raised while the response is built. When the
  provider's answer has no \<open>refresh_token\<close>, \<open>TokenResponse\<close> raises: status 500, and
  the new row is in the table.
\<close>

lemma callback_fails_after_commit:
  "callback settings0 (demo_env None 100 ''u-1'') ''code-1'' world0
     = (Inl (HTTPException 500
               ''Callback processing failed: 1 validation error for TokenResponse''),
        world1)"
  by (simp add: demo_eval world1_def user_abc_created_def)

text \<open>Whatever the claims, a successful callback answers with department \<open>tenant-a\<close>.\<close>

lemma callback_department_constant:
  assumes "callback s env code w = (Inr r, w')"
  shows "department_ur (user r) = ''tenant-a''"
proof -
  from callback_Inr[OF assms] obtain td c tenant p w2 where
    p: "callback_prepare s env code w = (Inr (td, c, tenant, p), w2)"
    and r: "user r = user_response (pending_row p) tenant"
    by blast
  from callback_prepare_Inr[OF p]
  have "p = find_or_create_user env tenant (the (c ''sub'')) (the (c ''email''))
               (c ''given_name'') (c ''family_name'') ''tenant-a'' (users w)"
    by simp
  then have "department (pending_row p) = ''tenant-a''"
    by (simp add: find_or_create_user_def pending_row_def split: option.splits)
  with r show ?thesis by (simp add: user_response_def)
qed

lemma commit_shape:
  assumes "commit env p us = Inr us'"
  shows "us' = us @ [pending_row p]
      \<or> us' = map (\<lambda>x. if id_u x = id_u (pending_row p) then pending_row p else x) us"
proof (cases p)
  case (Insert x)
  with assms commit_Insert[of env x us us'] show ?thesis by (simp add: pending_row_def)
next
  case (Update x)
  with assms commit_Update[of env x us us'] show ?thesis by (simp add: pending_row_def)
qed

text \<open>\<open>callback\<close> once \<open>callback_prepare\<close> has returned the pending row.\<close>

lemma callback_prepared:
  assumes p: "callback_prepare s env code w = (Inr (td, c, tenant, p), w2)"
  shows "callback s env code w =
     (case commit env p (users w) of
        Inl m \<Rightarrow> (Inl (callback_failed m), db_rollback w2)
      | Inr us' \<Rightarrow>
          (case read_raises env RefreshUser None of
             Some m \<Rightarrow> (Inl (callback_failed m), db_rollback (w2\<lparr>users := us', session := None\<rparr>))
           | None \<Rightarrow>
               (case read_raises env ReloadTenant None of
                  Some m \<Rightarrow>
                    (Inl (callback_failed m), db_rollback (w2\<lparr>users := us', session := None\<rparr>))
                | None \<Rightarrow>
                    (case token_response env td (user_response (pending_row p) tenant) of
                       Inl m \<Rightarrow>
                         (Inl (callback_failed m),
                          db_rollback (w2\<lparr>users := us', session := None\<rparr>))
                     | Inr r \<Rightarrow> (Inr r, w2\<lparr>users := us', session := None\<rparr>)))))"
  using p callback_prepare_db[OF p]
  by (simp add: callback_def Let_def split: sum.splits option.splits)

text \<open>
  C8, as the code has it. The callback writes through one commit of one pending row,
  and a callback that succeeds has written it: the row its response describes is in
  the table. When a query before the commit raises, or the commit itself raises (a
  constraint of the table is violated or the store reports a fault), the session is
  rolled back, the callback fails with status 500 and the users and tenants are those
  before the call. Once the commit has returned, the row stays written whatever
  follows: when \<open>db.refresh(user)\<close>, the reload of the tenant or the building of the
  response raises, the callback fails with status 500 and the row is in the table.
  Whatever the outcome, the tenants are unchanged, the session holds nothing, and the
  users are either those before the call or those with the one row written whole
  (appended, or put in the place of the row with its id).
\<close>

theorem callback_commit_or_rollback:
  "(\<forall>r w'. callback s env code w = (Inr r, w') \<longrightarrow>
      (\<exists>td c tenant p w2.
          callback_prepare s env code w = (Inr (td, c, tenant, p), w2)
          \<and> commit env p (users w) = Inr (users w')
          \<and> pending_row p \<in> set (users w')
          \<and> user r = user_response (pending_row p) tenant
          \<and> tenants w' = tenants w \<and> session w' = None))
   \<and> (\<forall>e w2. callback_prepare s env code w = (Inl e, w2) \<longrightarrow>
          callback s env code w = (Inl e, w2)
          \<and> users w2 = users w \<and> tenants w2 = tenants w \<and> session w2 = None)
   \<and> (\<forall>td w1 c w2 m.
          exchange_code_for_token s env code (OAUTH_REDIRECT_URI s) (get_db w) = (Inr td, w1)
          \<and> decode_token s env (access_token td) w1 = (Inr c, w2)
          \<and> \<not> falsy (c ''sub'') \<and> \<not> falsy (c ''email'')
          \<and> read_raises env TenantByIdentifier (Some ''tenant-a'') = Some m \<longrightarrow>
          callback s env code w
            = (Inl (HTTPException 500 (''Callback processing failed: '' @ m)), db_rollback w2))
   \<and> (\<forall>td w1 c w2 tenant m.
          exchange_code_for_token s env code (OAUTH_REDIRECT_URI s) (get_db w) = (Inr td, w1)
          \<and> decode_token s env (access_token td) w1 = (Inr c, w2)
          \<and> \<not> falsy (c ''sub'') \<and> \<not> falsy (c ''email'')
          \<and> read_raises env TenantByIdentifier (Some ''tenant-a'') = None
          \<and> active_tenant ''tenant-a'' (tenants w) = Some tenant
          \<and> read_raises env UserBySub (c ''sub'') = Some m \<longrightarrow>
          callback s env code w
            = (Inl (HTTPException 500 (''Callback processing failed: '' @ m)), db_rollback w2))
   \<and> (\<forall>td c tenant p w2 m.
          callback_prepare s env code w = (Inr (td, c, tenant, p), w2)
          \<and> commit env p (users w) = Inl m \<longrightarrow>
          fst (callback s env code w)
            = Inl (HTTPException 500 (''Callback processing failed: '' @ m))
          \<and> users (snd (callback s env code w)) = users w
          \<and> tenants (snd (callback s env code w)) = tenants w
          \<and> session (snd (callback s env code w)) = None)
   \<and> (\<forall>td c tenant p w2 us'.
          callback_prepare s env code w = (Inr (td, c, tenant, p), w2)
          \<and> commit env p (users w) = Inr us' \<longrightarrow>
          users (snd (callback s env code w)) = us'
          \<and> pending_row p \<in> set us'
          \<and> (us' = users w @ [pending_row p]
              \<or> us' = map (\<lambda>x. if id_u x = id_u (pending_row p) then pending_row p else x)
                        (users w))
          \<and> (\<forall>m. read_raises env RefreshUser None = Some m \<longrightarrow>
                 fst (callback s env code w)
                   = Inl (HTTPException 500 (''Callback processing failed: '' @ m)))
          \<and> (\<forall>m. read_raises env RefreshUser None = None
                 \<and> read_raises env ReloadTenant None = Some m \<longrightarrow>
                 fst (callback s env code w)
                   = Inl (HTTPException 500 (''Callback processing failed: '' @ m)))
          \<and> (read_raises env RefreshUser None = None
              \<and> read_raises env ReloadTenant None = None \<longrightarrow>
                 fst (callback s env code w)
                   = (case token_response env td (user_response (pending_row p) tenant) of
                        Inl m \<Rightarrow> Inl (HTTPException 500 (''Callback processing failed: '' @ m))
                      | Inr r \<Rightarrow> Inr r)))
   \<and> tenants (snd (callback s env code w)) = tenants w
   \<and> session (snd (callback s env code w)) = None
   \<and> (users (snd (callback s env code w)) = users w
       \<or> (\<exists>td c tenant p w2.
             callback_prepare s env code w = (Inr (td, c, tenant, p), w2)
             \<and> commit env p (users w) = Inr (users (snd (callback s env code w)))))"
proof -
  have A: "\<forall>r w'. callback s env code w = (Inr r, w') \<longrightarrow>
      (\<exists>td c tenant p w2.
          callback_prepare s env code w = (Inr (td, c, tenant, p), w2)
          \<and> commit env p (users w) = Inr (users w')
          \<and> pending_row p \<in> set (users w')
          \<and> user r = user_response (pending_row p) tenant
          \<and> tenants w' = tenants w \<and> session w' = None)"
  proof (intro allI impI)
    fix r w' assume ok: "callback s env code w = (Inr r, w')"
    from callback_Inr[OF ok] obtain td c tenant p w2 where
      p: "callback_prepare s env code w = (Inr (td, c, tenant, p), w2)"
      and k: "commit env p (users w) = Inr (users w')"
      and rest: "tenants w' = tenants w" "session w' = None"
        "user r = user_response (pending_row p) tenant"
      by blast
    from callback_prepare_Inr[OF p]
    have pe: "p = find_or_create_user env tenant (the (c ''sub'')) (the (c ''email''))
               (c ''given_name'') (c ''family_name'') ''tenant-a'' (users w)"
      by simp
    from k have "pending_row p \<in> set (users w')"
      unfolding pe by (rule find_or_create_row_written)
    with p k rest show "\<exists>td c tenant p w2.
          callback_prepare s env code w = (Inr (td, c, tenant, p), w2)
          \<and> commit env p (users w) = Inr (users w')
          \<and> pending_row p \<in> set (users w')
          \<and> user r = user_response (pending_row p) tenant
          \<and> tenants w' = tenants w \<and> session w' = None"
      by blast
  qed
  have B: "\<forall>e w2. callback_prepare s env code w = (Inl e, w2) \<longrightarrow>
          callback s env code w = (Inl e, w2)
          \<and> users w2 = users w \<and> tenants w2 = tenants w \<and> session w2 = None"
  proof (intro allI impI)
    fix e w2 assume p: "callback_prepare s env code w = (Inl e, w2)"
    from p have "callback s env code w = (Inl e, w2)" by (simp add: callback_def)
    with callback_prepare_db[OF p] callback_prepare_Inl[OF p]
    show "callback s env code w = (Inl e, w2)
          \<and> users w2 = users w \<and> tenants w2 = tenants w \<and> session w2 = None"
      by simp
  qed
  have B1: "\<forall>td w1 c w2 m.
          exchange_code_for_token s env code (OAUTH_REDIRECT_URI s) (get_db w) = (Inr td, w1)
          \<and> decode_token s env (access_token td) w1 = (Inr c, w2)
          \<and> \<not> falsy (c ''sub'') \<and> \<not> falsy (c ''email'')
          \<and> read_raises env TenantByIdentifier (Some ''tenant-a'') = Some m \<longrightarrow>
          callback s env code w
            = (Inl (HTTPException 500 (''Callback processing failed: '' @ m)), db_rollback w2)"
  proof (intro allI impI)
    fix td w1 c w2 m
    assume h: "exchange_code_for_token s env code (OAUTH_REDIRECT_URI s) (get_db w) = (Inr td, w1)
          \<and> decode_token s env (access_token td) w1 = (Inr c, w2)
          \<and> \<not> falsy (c ''sub'') \<and> \<not> falsy (c ''email'')
          \<and> read_raises env TenantByIdentifier (Some ''tenant-a'') = Some m"
    then have e: "exchange_code_for_token s env code (OAUTH_REDIRECT_URI s) (get_db w) = (Inr td, w1)"
      and d: "decode_token s env (access_token td) w1 = (Inr c, w2)" by simp_all
    from callback_prepare_decoded(1)[OF e d] h
    have "callback_prepare s env code w = (Inl (callback_failed m), db_rollback w2)"
      by simp
    then show "callback s env code w
            = (Inl (HTTPException 500 (''Callback processing failed: '' @ m)), db_rollback w2)"
      by (simp add: callback_def callback_failed_def)
  qed
  have B2: "\<forall>td w1 c w2 tenant m.
          exchange_code_for_token s env code (OAUTH_REDIRECT_URI s) (get_db w) = (Inr td, w1)
          \<and> decode_token s env (access_token td) w1 = (Inr c, w2)
          \<and> \<not> falsy (c ''sub'') \<and> \<not> falsy (c ''email'')
          \<and> read_raises env TenantByIdentifier (Some ''tenant-a'') = None
          \<and> active_tenant ''tenant-a'' (tenants w) = Some tenant
          \<and> read_raises env UserBySub (c ''sub'') = Some m \<longrightarrow>
          callback s env code w
            = (Inl (HTTPException 500 (''Callback processing failed: '' @ m)), db_rollback w2)"
  proof (intro allI impI)
    fix td w1 c w2 tenant m
    assume h: "exchange_code_for_token s env code (OAUTH_REDIRECT_URI s) (get_db w) = (Inr td, w1)
          \<and> decode_token s env (access_token td) w1 = (Inr c, w2)
          \<and> \<not> falsy (c ''sub'') \<and> \<not> falsy (c ''email'')
          \<and> read_raises env TenantByIdentifier (Some ''tenant-a'') = None
          \<and> active_tenant ''tenant-a'' (tenants w) = Some tenant
          \<and> read_raises env UserBySub (c ''sub'') = Some m"
    then have e: "exchange_code_for_token s env code (OAUTH_REDIRECT_URI s) (get_db w) = (Inr td, w1)"
      and d: "decode_token s env (access_token td) w1 = (Inr c, w2)" by simp_all
    from callback_prepare_decoded(1)[OF e d] h
    have "callback_prepare s env code w = (Inl (callback_failed m), db_rollback w2)"
      by simp
    then show "callback s env code w
            = (Inl (HTTPException 500 (''Callback processing failed: '' @ m)), db_rollback w2)"
      by (simp add: callback_def callback_failed_def)
  qed
  have C: "\<forall>td c tenant p w2 m.
          callback_prepare s env code w = (Inr (td, c, tenant, p), w2)
          \<and> commit env p (users w) = Inl m \<longrightarrow>
          fst (callback s env code w)
            = Inl (HTTPException 500 (''Callback processing failed: '' @ m))
          \<and> users (snd (callback s env code w)) = users w
          \<and> tenants (snd (callback s env code w)) = tenants w
          \<and> session (snd (callback s env code w)) = None"
  proof (intro allI impI)
    fix td c tenant p w2 m
    assume h: "callback_prepare s env code w = (Inr (td, c, tenant, p), w2)
          \<and> commit env p (users w) = Inl m"
    then have p: "callback_prepare s env code w = (Inr (td, c, tenant, p), w2)"
      and k: "commit env p (users w) = Inl m" by simp_all
    from callback_prepared[OF p] k
    have "callback s env code w = (Inl (callback_failed m), db_rollback w2)" by simp
    with callback_prepare_db[OF p]
    show "fst (callback s env code w)
            = Inl (HTTPException 500 (''Callback processing failed: '' @ m))
          \<and> users (snd (callback s env code w)) = users w
          \<and> tenants (snd (callback s env code w)) = tenants w
          \<and> session (snd (callback s env code w)) = None"
      by (simp add: callback_failed_def db_rollback_def)
  qed
  have D: "\<forall>td c tenant p w2 us'.
          callback_prepare s env code w = (Inr (td, c, tenant, p), w2)
          \<and> commit env p (users w) = Inr us' \<longrightarrow>
          users (snd (callback s env code w)) = us'
          \<and> pending_row p \<in> set us'
          \<and> (us' = users w @ [pending_row p]
              \<or> us' = map (\<lambda>x. if id_u x = id_u (pending_row p) then pending_row p else x)
                        (users w))
          \<and> (\<forall>m. read_raises env RefreshUser None = Some m \<longrightarrow>
                 fst (callback s env code w)
                   = Inl (HTTPException 500 (''Callback processing failed: '' @ m)))
          \<and> (\<forall>m. read_raises env RefreshUser None = None
                 \<and> read_raises env ReloadTenant None = Some m \<longrightarrow>
                 fst (callback s env code w)
                   = Inl (HTTPException 500 (''Callback processing failed: '' @ m)))
          \<and> (read_raises env RefreshUser None = None
              \<and> read_raises env ReloadTenant None = None \<longrightarrow>
                 fst (callback s env code w)
                   = (case token_response env td (user_response (pending_row p) tenant) of
                        Inl m \<Rightarrow> Inl (HTTPException 500 (''Callback processing failed: '' @ m))
                      | Inr r \<Rightarrow> Inr r))"
  proof (intro allI impI)
    fix td c tenant p w2 us'
    assume h: "callback_prepare s env code w = (Inr (td, c, tenant, p), w2)
          \<and> commit env p (users w) = Inr us'"
    then have p: "callback_prepare s env code w = (Inr (td, c, tenant, p), w2)"
      and k: "commit env p (users w) = Inr us'" by simp_all
    note cb = callback_prepared[OF p, unfolded k, simplified]
    from callback_prepare_Inr[OF p]
    have pe: "p = find_or_create_user env tenant (the (c ''sub'')) (the (c ''email''))
               (c ''given_name'') (c ''family_name'') ''tenant-a'' (users w)"
      by simp
    from k have row: "pending_row p \<in> set us'"
      unfolding pe by (rule find_or_create_row_written)
    have d1: "users (snd (callback s env code w)) = us'"
      unfolding cb by (simp add: db_rollback_def split: option.splits sum.splits)
    have d3: "\<forall>m. read_raises env RefreshUser None = Some m \<longrightarrow>
                 fst (callback s env code w)
                   = Inl (HTTPException 500 (''Callback processing failed: '' @ m))"
      unfolding cb by (simp add: callback_failed_def)
    have d4: "\<forall>m. read_raises env RefreshUser None = None
                 \<and> read_raises env ReloadTenant None = Some m \<longrightarrow>
                 fst (callback s env code w)
                   = Inl (HTTPException 500 (''Callback processing failed: '' @ m))"
      unfolding cb by (simp add: callback_failed_def)
    have d5: "read_raises env RefreshUser None = None
              \<and> read_raises env ReloadTenant None = None \<longrightarrow>
                 fst (callback s env code w)
                   = (case token_response env td (user_response (pending_row p) tenant) of
                        Inl m \<Rightarrow> Inl (HTTPException 500 (''Callback processing failed: '' @ m))
                      | Inr r \<Rightarrow> Inr r)"
      unfolding cb by (simp add: callback_failed_def split: sum.splits)
    from d1 row commit_shape[OF k] d3 d4 d5
    show "users (snd (callback s env code w)) = us'
          \<and> pending_row p \<in> set us'
          \<and> (us' = users w @ [pending_row p]
              \<or> us' = map (\<lambda>x. if id_u x = id_u (pending_row p) then pending_row p else x)
                        (users w))
          \<and> (\<forall>m. read_raises env RefreshUser None = Some m \<longrightarrow>
                 fst (callback s env code w)
                   = Inl (HTTPException 500 (''Callback processing failed: '' @ m)))
          \<and> (\<forall>m. read_raises env RefreshUser None = None
                 \<and> read_raises env ReloadTenant None = Some m \<longrightarrow>
                 fst (callback s env code w)
                   = Inl (HTTPException 500 (''Callback processing failed: '' @ m)))
          \<and> (read_raises env RefreshUser None = None
              \<and> read_raises env ReloadTenant None = None \<longrightarrow>
                 fst (callback s env code w)
                   = (case token_response env td (user_response (pending_row p) tenant) of
                        Inl m \<Rightarrow> Inl (HTTPException 500 (''Callback processing failed: '' @ m))
                      | Inr r \<Rightarrow> Inr r))"
      by blast
  qed
  obtain r w' where cb: "callback s env code w = (r, w')"
    by (cases "callback s env code w")
  from callback_db[OF cb] cb
  have E: "tenants (snd (callback s env code w)) = tenants w"
    "session (snd (callback s env code w)) = None"
    "users (snd (callback s env code w)) = users w
       \<or> (\<exists>td c tenant p w2.
             callback_prepare s env code w = (Inr (td, c, tenant, p), w2)
             \<and> commit env p (users w) = Inr (users (snd (callback s env code w))))"
    by simp_all
  from A B B1 B2 C D E show ?thesis by blast
qed

theorem callback_commit_or_rollback_witness:
  "fst (callback settings0 (demo_env (Some ''r1'') 100 ''u-2'') ''code-1''
          (world0\<lparr>users := [user_abc\<lparr>keycloak_user_id := ''zzz'', email := ''a@x.com''\<rparr>]\<rparr>))
     = Inl (HTTPException 500
         ''Callback processing failed: duplicate key value violates unique constraint uq_tenant_email'')
   \<and> users (snd (callback settings0 (demo_env (Some ''r1'') 100 ''u-2'') ''code-1''
          (world0\<lparr>users := [user_abc\<lparr>keycloak_user_id := ''zzz'', email := ''a@x.com''\<rparr>]\<rparr>)))
     = [user_abc\<lparr>keycloak_user_id := ''zzz'', email := ''a@x.com''\<rparr>]
   \<and> session (snd (callback settings0 (demo_env (Some ''r1'') 100 ''u-2'') ''code-1''
          (world0\<lparr>users := [user_abc\<lparr>keycloak_user_id := ''zzz'', email := ''a@x.com''\<rparr>]\<rparr>)))
     = None
   \<and> user_abc_created \<in> set (users (snd
         (callback settings0 (demo_env (Some ''r1'') 100 ''u-1'') ''code-1'' world0)))"
proof -
  let ?env = "demo_env (Some ''r1'') 100 ''u-2''"
  let ?w = "world0\<lparr>users := [user_abc\<lparr>keycloak_user_id := ''zzz'', email := ''a@x.com''\<rparr>]\<rparr>"
  have "\<exists>td t q wa. callback_prepare settings0 ?env ''code-1'' ?w = (Inr (td, claims_abc, t, q), wa)
          \<and> commit ?env q (users ?w)
              = Inl ''duplicate key value violates unique constraint uq_tenant_email''"
    by (simp add: demo_eval user_abc_def)
  then obtain td t q wa where
    p: "callback_prepare settings0 ?env ''code-1'' ?w = (Inr (td, claims_abc, t, q), wa)"
    and k: "commit ?env q (users ?w)
              = Inl ''duplicate key value violates unique constraint uq_tenant_email''"
    by blast
  have u: "users ?w = [user_abc\<lparr>keycloak_user_id := ''zzz'', email := ''a@x.com''\<rparr>]"
    by simp
  from callback_commit_or_rollback[of settings0 ?env "''code-1''" ?w] p k
  have a: "fst (callback settings0 ?env ''code-1'' ?w)
          = Inl (HTTPException 500 (''Callback processing failed: ''
                  @ ''duplicate key value violates unique constraint uq_tenant_email''))
        \<and> users (snd (callback settings0 ?env ''code-1'' ?w)) = users ?w
        \<and> session (snd (callback settings0 ?env ''code-1'' ?w)) = None"
    by blast
  let ?e1 = "demo_env (Some ''r1'') 100 ''u-1''"
  from demo_callback1 obtain r1 where
    c1: "callback settings0 ?e1 ''code-1'' world0 = (Inr r1, world1)" by blast
  note A = callback_commit_or_rollback[of settings0 ?e1 "''code-1''" world0, THEN conjunct1]
  from A[rule_format, OF c1]
  obtain p1 where w1: "pending_row p1 \<in> set (users world1)" by blast
  then have "pending_row p1 = user_abc_created" by (simp add: world1_def)
  with w1 c1 have b: "user_abc_created \<in> set (users (snd
         (callback settings0 ?e1 ''code-1'' world0)))"
    by simp
  from a b show ?thesis unfolding u by simp
qed

section \<open>Session refresh\<close>

lemma touch_last_login_fields:
  "last_login (touch_last_login env u) = Some (utcnow env 0)
   \<and> id_u (touch_last_login env u) = id_u u
   \<and> tenant_id (touch_last_login env u) = tenant_id u
   \<and> keycloak_user_id (touch_last_login env u) = keycloak_user_id u
   \<and> email (touch_last_login env u) = email u
   \<and> first_name (touch_last_login env u) = first_name u
   \<and> last_name (touch_last_login env u) = last_name u
   \<and> department (touch_last_login env u) = department u
   \<and> status_u (touch_last_login env u) = status_u u
   \<and> created_at_u (touch_last_login env u) = created_at_u u"
  by (simp add: touch_last_login_def)

lemma refresh_Inr:
  assumes "refresh s env refresh_tok w = (Inr r, w')"
  shows "\<exists>td w1 c w2 sub u.
           refresh_access_token s env refresh_tok (get_db w) = (Inr td, w1)
         \<and> decode_token s env (access_token td) w1 = (Inr c, w2)
         \<and> c ''sub'' = Some sub \<and> user_by_sub sub (users w) = Some u
         \<and> commit env (Update (touch_last_login env u)) (users w) = Inr (users w')
         \<and> tenants w' = tenants w"
proof -
  obtain r1 w1 where e: "refresh_access_token s env refresh_tok (get_db w) = (r1, w1)"
    by (cases "refresh_access_token s env refresh_tok (get_db w)")
  from refresh_access_world[OF e] get_db_fields[of w]
  have e1: "users w1 = users w" "tenants w1 = tenants w" by simp_all
  show ?thesis
  proof (cases r1)
    case (Inl m)
    with assms e show ?thesis by (simp add: refresh_def)
  next
    case td: (Inr td)
    obtain rd w2 where d: "decode_token s env (access_token td) w1 = (rd, w2)"
      by (cases "decode_token s env (access_token td) w1")
    from decode_token_db[OF d] e1
    have d1: "users w2 = users w" "tenants w2 = tenants w" by simp_all
    show ?thesis
    proof (cases rd)
      case (Inl m)
      with assms e td d show ?thesis by (simp add: refresh_def)
    next
      case c: (Inr c)
      show ?thesis
      proof (cases "read_raises env UserBySub (c ''sub'')")
        case (Some m)
        with assms e td d c show ?thesis by (simp add: refresh_def)
      next
        case rd0: None
        show ?thesis
        proof (cases "c ''sub''")
          case None
          with assms e td d c rd0 show ?thesis by (simp add: refresh_def)
        next
          case sub: (Some sub)
          show ?thesis
          proof (cases "user_by_sub sub (users w)")
            case None
            with assms e td d c rd0 sub d1 show ?thesis by (simp add: refresh_def)
          next
            case u: (Some u)
            have uw2: "user_by_sub sub (users w2) = Some u" using u d1 by simp
            show ?thesis
            proof (cases "commit env (Update (touch_last_login env u)) (users w)")
              case (Inl m)
              with assms e td d c rd0 sub uw2 d1 show ?thesis
                by (simp add: refresh_def Let_def)
            next
              case us': (Inr us')
              have k: "commit env (Update (touch_last_login env u)) (users w2) = Inr us'"
                using us' d1 by simp
              from assms e td d c rd0 sub uw2 k
              have "w' = w2\<lparr>users := us', session := None\<rparr>"
                by (auto simp: refresh_def Let_def split: option.splits sum.splits)
              then have "users w' = us'" "tenants w' = tenants w"
                using d1 by simp_all
              with e td d c sub u us' show ?thesis by simp
            qed
          qed
        qed
      qed
    qed
  qed
qed

lemma refresh_access_fst:
  "fst (refresh_access_token s env rt w) = fst (refresh_access_token s env rt w0)"
  by (simp add: refresh_access_token_def Let_def)

lemma decode_token_fst:
  "fst (decode_token s env tok w) = fst (decode_token s env tok w0)"
  by (simp add: decode_token_def Let_def)

text \<open>
  C9, as the code has it. A successful \<open>refresh\<close> whose new access token decodes to
  the \<open>sub\<close> of a stored user replaces that row alone, by a row that differs from it
  in \<open>last_login\<close> (now the call's reading of the clock) and \<open>updated_at\<close> only:
  email, names, department, tenant, status, subject, id and creation time are kept,
  whatever the claims of the new token say. The other rows and the tenants are
  unchanged. The ids of the stored users are taken distinct (the primary key).
\<close>

theorem refresh_sets_last_login_only:
  assumes di: "distinct (map id_u (users w))"
    and ok: "refresh s env refresh_tok w = (Inr r, w')"
  shows "\<exists>td w1 c w2 sub u u'.
           refresh_access_token s env refresh_tok w = (Inr td, w1)
         \<and> decode_token s env (access_token td) w1 = (Inr c, w2)
         \<and> c ''sub'' = Some sub \<and> user_by_sub sub (users w) = Some u
         \<and> users w' = map (\<lambda>x. if x = u then u' else x) (users w)
         \<and> tenants w' = tenants w
         \<and> last_login u' = Some (utcnow env 0)
         \<and> email u' = email u \<and> first_name u' = first_name u
         \<and> last_name u' = last_name u \<and> department u' = department u
         \<and> id_u u' = id_u u \<and> tenant_id u' = tenant_id u
         \<and> keycloak_user_id u' = keycloak_user_id u \<and> status_u u' = status_u u
         \<and> created_at_u u' = created_at_u u"
proof -
  from refresh_Inr[OF ok] obtain td wa c wb sub u where
    a0: "refresh_access_token s env refresh_tok (get_db w) = (Inr td, wa)"
      "decode_token s env (access_token td) wa = (Inr c, wb)"
    and a: "c ''sub'' = Some sub" "user_by_sub sub (users w) = Some u"
    and k: "commit env (Update (touch_last_login env u)) (users w) = Inr (users w')"
    and t: "tenants w' = tenants w"
    by blast
  define w1 where "w1 = snd (refresh_access_token s env refresh_tok w)"
  define w2 where "w2 = snd (decode_token s env (access_token td) w1)"
  have "fst (refresh_access_token s env refresh_tok w)
          = fst (refresh_access_token s env refresh_tok (get_db w))"
    by (rule refresh_access_fst)
  with a0(1) have b1: "refresh_access_token s env refresh_tok w = (Inr td, w1)"
    unfolding w1_def by (simp add: prod_eq_iff)
  have "fst (decode_token s env (access_token td) w1)
          = fst (decode_token s env (access_token td) wa)"
    by (rule decode_token_fst)
  with a0(2) have b2: "decode_token s env (access_token td) w1 = (Inr c, w2)"
    unfolding w2_def by (simp add: prod_eq_iff)
  define u' where "u' = touch_last_login env u"
  note f = touch_last_login_fields[of env u, folded u'_def]
  from user_by_sub_Some[OF a(2)] have uin: "u \<in> set (users w)" by simp
  have idu: "id_u u' = id_u u" using f by blast
  from commit_Update[OF k]
  have "users w' = map (\<lambda>x. if id_u x = id_u u' then u' else x) (users w)"
    unfolding u'_def .
  with update_by_id[OF di uin idu]
  have m: "users w' = map (\<lambda>x. if x = u then u' else x) (users w)" by simp
  show ?thesis
    apply (rule exI[of _ td], rule exI[of _ w1], rule exI[of _ c], rule exI[of _ w2])
    apply (rule exI[of _ sub], rule exI[of _ u], rule exI[of _ u'])
    using b1 b2 a m t f by blast
qed

lemmas demo_eval_refresh = refresh_def touch_last_login_def user_abc_def

lemma demo_refresh:
  "refresh settings0 (demo_env (Some ''r9'') 100 ''u-9'') ''code-new''
     (world0\<lparr>users := [user_abc]\<rparr>)
   = (Inr \<lparr>access_token_r = ''code-new'', refresh_token_r = ''r9'', token_type = ''bearer'',
           expires_in_r = 60,
           user = \<lparr>id_ur = ''u-1'', email_ur = ''old@x.com'', first_name_ur = Some ''Old'',
                   last_name_ur = None, department_ur = ''tenant-a'',
                   status_ur = Some ''active'', last_login_ur = Some 100,
                   tenant_ur = Some (tenant_response tenant_a)\<rparr>\<rparr>,
      world0\<lparr>users := [user_abc\<lparr>last_login := Some 100, updated_at_u := 101\<rparr>],
               sent := [Post (token_url settings0)
                          [(''grant_type'', ''refresh_token''), (''refresh_token'', ''code-new''),
                           (''client_id'', ''fastapi-backend''), (''client_secret'', ''s3cret'')],
                        Get (certs_url settings0)]\<rparr>)"
  by (simp add: demo_eval demo_eval_refresh)

text \<open>
  A refresh whose new token carries another email and other names than the stored row:
  the call succeeds and the row keeps its email and names.
\<close>

theorem refresh_keeps_claim_fields:
  "fst (decode_token settings0 (demo_env (Some ''r9'') 100 ''u-9'') (Some ''code-new'')
          (world0\<lparr>users := [user_abc]\<rparr>)) = Inr claims_abc_new
   \<and> claims_abc_new ''sub'' = Some ''abc''
   \<and> claims_abc_new ''email'' = Some ''new@x.com''
   \<and> claims_abc_new ''given_name'' = Some ''Ann''
   \<and> user_by_sub ''abc'' [user_abc] = Some user_abc
   \<and> email user_abc = ''old@x.com'' \<and> first_name user_abc = Some ''Old''
   \<and> refresh settings0 (demo_env (Some ''r9'') 100 ''u-9'') ''code-new''
        (world0\<lparr>users := [user_abc]\<rparr>)
      = (Inr \<lparr>access_token_r = ''code-new'', refresh_token_r = ''r9'', token_type = ''bearer'',
              expires_in_r = 60,
              user = \<lparr>id_ur = ''u-1'', email_ur = ''old@x.com'', first_name_ur = Some ''Old'',
                      last_name_ur = None, department_ur = ''tenant-a'',
                      status_ur = Some ''active'', last_login_ur = Some 100,
                      tenant_ur = Some (tenant_response tenant_a)\<rparr>\<rparr>,
         world0\<lparr>users := [user_abc\<lparr>last_login := Some 100, updated_at_u := 101\<rparr>],
                  sent := [Post (token_url settings0)
                             [(''grant_type'', ''refresh_token''),
                              (''refresh_token'', ''code-new''),
                              (''client_id'', ''fastapi-backend''),
                              (''client_secret'', ''s3cret'')],
                           Get (certs_url settings0)]\<rparr>)"
  by (simp add: demo_eval demo_eval_refresh)

theorem refresh_sets_last_login_only_witness:
  "users (snd (refresh settings0 (demo_env (Some ''r9'') 100 ''u-9'') ''code-new''
                 (world0\<lparr>users := [user_abc]\<rparr>)))
     = [user_abc\<lparr>last_login := Some 100, updated_at_u := 101\<rparr>]
   \<and> map email (users (snd (refresh settings0 (demo_env (Some ''r9'') 100 ''u-9'') ''code-new''
                 (world0\<lparr>users := [user_abc]\<rparr>))))
     = [''old@x.com'']"
proof -
  let ?env = "demo_env (Some ''r9'') 100 ''u-9''"
  let ?w = "world0\<lparr>users := [user_abc]\<rparr>"
  have di: "distinct (map id_u (users ?w))" by simp
  from demo_refresh obtain r w' where
    ok: "refresh settings0 ?env ''code-new'' ?w = (Inr r, w')"
    and w': "users w' = [user_abc\<lparr>last_login := Some 100, updated_at_u := 101\<rparr>]"
    by simp
  from refresh_sets_last_login_only[OF di ok]
  obtain u u' where m: "users w' = map (\<lambda>x. if x = u then u' else x) (users ?w)"
    and e: "email u' = email u"
    by blast
  have "map email (users w') = map email (users ?w)"
    unfolding m using e by (simp add: comp_def)
  then have "map email (users w') = [''old@x.com'']"
    by (simp add: user_abc_def)
  with ok w' show ?thesis by simp
qed


end
